theory Spec2Isabelle
  imports Complex_Main "HOL-Library.Sublist" "HOL-Library.Log_Nat"
begin

section \<open>The JavaScript values and built-ins that server.js relies on\<close>

text \<open>
  Strings are lists of code units. A \<^typ>\<open>char\<close> stands for the UTF-16 code unit of the
  same number, so the model covers text in the range U+0000 .. U+00FF; \<open>length\<close> is the
  JavaScript \<^verbatim>\<open>.length\<close>.

  The numbers of the listing are doubles. Those that occur there are the doubles with an
  integer value (\<open>Num n\<close>, for an \<open>n\<close> that a double can hold, \<open>Num 0\<close> being \<open>+0\<close>), the
  negative zero, the two infinities and \<^verbatim>\<open>NaN\<close>. \<^verbatim>\<open>res.json\<close> writes the negative zero as \<open>0\<close>
  and the infinities and \<^verbatim>\<open>NaN\<close> as \<^verbatim>\<open>null\<close>.
\<close>

datatype jsnum = Num int | NegZero | Infinity | NegInfinity | NaN

text \<open>
  The double nearest to an integer that is not zero, the even one of two (round to nearest,
  ties to even, with 53 bits of precision): an integer below \<open>2^53\<close> in absolute value is a
  double; a longer one keeps its 53 leading bits, rounded; what reaches \<open>2^1024\<close> is infinite.
\<close>

definition round_double :: "int \<Rightarrow> jsnum" where
  "round_double n =
    (if \<bar>n\<bar> < 2 ^ 53 then Num n
     else (let e = nat (bitlen \<bar>n\<bar> - 53);
               q = \<bar>n\<bar> div 2 ^ e;
               r = \<bar>n\<bar> mod 2 ^ e;
               m = (if 2 ^ e < 2 * r \<or> (2 * r = 2 ^ e \<and> odd q) then q + 1 else q)
           in if 2 ^ 1024 \<le> m * 2 ^ e then (if n < 0 then NegInfinity else Infinity)
              else Num (sgn n * (m * 2 ^ e))))"

text \<open>The sign bit, the integer value of a finite double, and the classes of doubles.\<close>

fun negative :: "jsnum \<Rightarrow> bool" where
  "negative (Num n) = (n < 0)"
| "negative NegZero = True"
| "negative Infinity = False"
| "negative NegInfinity = True"
| "negative NaN = False"

fun intValue :: "jsnum \<Rightarrow> int" where
  "intValue (Num n) = n"
| "intValue v = 0"

fun isInfinite :: "jsnum \<Rightarrow> bool" where
  "isInfinite Infinity = True"
| "isInfinite NegInfinity = True"
| "isInfinite v = False"

fun isZero :: "jsnum \<Rightarrow> bool" where
  "isZero (Num n) = (n = 0)"
| "isZero NegZero = True"
| "isZero v = False"

text \<open>The values a parsed JSON body can hold in a property (\<open>JObject\<close>: any object or array).
  A number of the body is a double; \<open>JNum\<close> holds the value of a finite one, and so does the
  price of a stored product.\<close>

datatype jsval = JUndefined | JNull | JBool bool | JNum real | JStr string | JObject

fun typeof :: "jsval \<Rightarrow> string" where
  "typeof JUndefined = ''undefined''"
| "typeof JNull = ''object''"
| "typeof (JBool b) = ''boolean''"
| "typeof (JNum x) = ''number''"
| "typeof (JStr s) = ''string''"
| "typeof JObject = ''object''"

text \<open>\<^verbatim>\<open>Boolean(v)\<close>, and \<^verbatim>\<open>!v\<close> as its negation.\<close>

fun Boolean :: "jsval \<Rightarrow> bool" where
  "Boolean JUndefined = False"
| "Boolean JNull = False"
| "Boolean (JBool b) = b"
| "Boolean (JNum x) = (x \<noteq> 0)"
| "Boolean (JStr s) = (s \<noteq> [])"
| "Boolean JObject = True"

text \<open>White space as \<^verbatim>\<open>String.prototype.trim\<close> and \<^verbatim>\<open>parseInt\<close> see it: TAB, LF, VT, FF, CR,
  space and the no-break space.\<close>

definition isWhiteSpace :: "char \<Rightarrow> bool" where
  "isWhiteSpace c = (let n = (of_char c :: nat) in (9 \<le> n \<and> n \<le> 13) \<or> n = 32 \<or> n = 160)"

definition trim :: "string \<Rightarrow> string" where
  "trim s = rev (dropWhile isWhiteSpace (rev (dropWhile isWhiteSpace s)))"

text \<open>Upper-case letters below U+0100 are A..Z and U+00C0..U+00DE without the multiplication
  sign U+00D7; the lower-case letter is 32 further on, which sets bit 5 of the code unit.\<close>

definition isUpperCase :: "char \<Rightarrow> bool" where
  "isUpperCase c = (let n = (of_char c :: nat) in
     (65 \<le> n \<and> n \<le> 90) \<or> (192 \<le> n \<and> n \<le> 222 \<and> n \<noteq> 215))"

definition toLowerChar :: "char \<Rightarrow> char" where
  "toLowerChar c = (if isUpperCase c
     then (case c of Char b0 b1 b2 b3 b4 b5 b6 b7 \<Rightarrow> Char b0 b1 b2 b3 b4 True b6 b7)
     else c)"

definition toLowerCase :: "string \<Rightarrow> string" where
  "toLowerCase s = map toLowerChar s"

text \<open>\<^verbatim>\<open>s.includes(t)\<close>: \<open>t\<close> occurs in \<open>s\<close> at some position.\<close>

fun startsWith :: "string \<Rightarrow> string \<Rightarrow> bool" where
  "startsWith s [] = True"
| "startsWith [] (c # t) = False"
| "startsWith (d # s) (c # t) = (d = c \<and> startsWith s t)"

fun includes_str :: "string \<Rightarrow> string \<Rightarrow> bool" where
  "includes_str [] t = startsWith [] t"
| "includes_str (d # s) t = (startsWith (d # s) t \<or> includes_str s t)"

text \<open>\<^verbatim>\<open>errors.join(', ')\<close>\<close>

fun join :: "string \<Rightarrow> string list \<Rightarrow> string" where
  "join sep [] = []"
| "join sep [x] = x"
| "join sep (x # y # ys) = x @ sep @ join sep (y # ys)"

text \<open>
  \<^verbatim>\<open>parseInt(s)\<close> with no radix: leading white space is skipped, then an optional sign, then
  the prefix \<^verbatim>\<open>0x\<close> or \<^verbatim>\<open>0X\<close> selects radix 16 (radix 10 otherwise), and the longest run of
  digits of that radix is read; without a digit the result is \<^verbatim>\<open>NaN\<close>.
\<close>

definition digitValue :: "char \<Rightarrow> nat option" where
  "digitValue c = (let n = (of_char c :: nat) in
     if 48 \<le> n \<and> n \<le> 57 then Some (n - 48)
     else if 97 \<le> n \<and> n \<le> 102 then Some (n - 87)
     else if 65 \<le> n \<and> n \<le> 70 then Some (n - 55)
     else None)"

definition isDigit :: "nat \<Rightarrow> char \<Rightarrow> bool" where
  "isDigit radix c = (case digitValue c of None \<Rightarrow> False | Some v \<Rightarrow> v < radix)"

definition digitsValue :: "nat \<Rightarrow> string \<Rightarrow> int" where
  "digitsValue radix ds =
     foldl (\<lambda>acc c. acc * int radix + (case digitValue c of None \<Rightarrow> 0 | Some v \<Rightarrow> int v)) 0 ds"

definition parseDigits :: "nat \<Rightarrow> string \<Rightarrow> jsnum" where
  "parseDigits radix s = (let ds = takeWhile (isDigit radix) s in
     if ds = [] then NaN else round_double (digitsValue radix ds))"

fun parseUnsigned :: "string \<Rightarrow> jsnum" where
  "parseUnsigned (c # d # s) =
     (if c = CHR ''0'' \<and> (d = CHR ''x'' \<or> d = CHR ''X'') then parseDigits 16 s
      else parseDigits 10 (c # d # s))"
| "parseUnsigned s = parseDigits 10 s"

fun negate :: "jsnum \<Rightarrow> jsnum" where
  "negate (Num n) = (if n = 0 then NegZero else Num (- n))"
| "negate NegZero = Num 0"
| "negate Infinity = NegInfinity"
| "negate NegInfinity = Infinity"
| "negate NaN = NaN"

definition parseInt :: "string \<Rightarrow> jsnum" where
  "parseInt s = (case dropWhile isWhiteSpace s of
       [] \<Rightarrow> NaN
     | c # r \<Rightarrow> if c = CHR ''-'' then negate (parseUnsigned r)
               else if c = CHR ''+'' then parseUnsigned r
               else parseUnsigned (c # r))"

text \<open>
  \<^verbatim>\<open>xs.slice(start, end)\<close>: \<^verbatim>\<open>NaN\<close> and the zeros count as 0, a negative index counts from the
  end of the array, both indices are clamped to \<open>0 .. length xs\<close> (so \<^verbatim>\<open>-Infinity\<close> is 0 and
  \<^verbatim>\<open>Infinity\<close> the length), and an empty range gives \<open>[]\<close>.
\<close>

fun relativeIndex :: "int \<Rightarrow> jsnum \<Rightarrow> int" where
  "relativeIndex len (Num i) = (if i < 0 then max (len + i) 0 else min i len)"
| "relativeIndex len NegZero = 0"
| "relativeIndex len Infinity = len"
| "relativeIndex len NegInfinity = 0"
| "relativeIndex len NaN = 0"

definition slice :: "'a list \<Rightarrow> jsnum \<Rightarrow> jsnum \<Rightarrow> 'a list" where
  "slice xs start end_ix = (let len = int (length xs);
       k = relativeIndex len start;
       final = relativeIndex len end_ix
     in take (nat (final - k)) (drop (nat k) xs))"

text \<open>
  The values of \<^verbatim>\<open>req.query\<close>. The application runs on Express 4 (the route pattern \<^verbatim>\<open>'*'\<close>
  of its last handler is not one that Express 5 accepts), whose query parser gives a string
  for a parameter that occurs once, an array for one that is repeated
  (\<^verbatim>\<open>?q=a&q=b\<close>) and an object for one with brackets (\<^verbatim>\<open>?q[k]=a\<close>); the entries of arrays and
  objects are such values again. A parameter that does not occur is \<^verbatim>\<open>undefined\<close>, here
  \<open>None\<close>.
\<close>

datatype qval = QStr string | QArr "qval list" | QObj "(string \<times> qval) list"

text \<open>\<^verbatim>\<open>if (v)\<close> on such a value: only the empty string (and \<^verbatim>\<open>undefined\<close>) is falsy.\<close>

fun truthy :: "qval option \<Rightarrow> bool" where
  "truthy None = False"
| "truthy (Some (QStr s)) = (s \<noteq> [])"
| "truthy (Some v) = True"

text \<open>
  The conversion to a string that \<^verbatim>\<open>parseInt\<close> applies to its argument; \<open>None\<close> when it
  throws a \<^verbatim>\<open>TypeError\<close>. An array is the strings of its entries joined by commas. An object
  is \<^verbatim>\<open>[object Object]\<close>, unless it has a property \<^verbatim>\<open>toString\<close> of its own: that one is
  no function, and the conversion fails.
\<close>

fun toStringQ :: "qval \<Rightarrow> string option" where
  "toStringQ (QStr s) = Some s"
| "toStringQ (QArr vs) = map_option (join '','') (those (map toStringQ vs))"
| "toStringQ (QObj kvs) =
     (if ''toString'' \<in> set (map fst kvs) then None else Some ''[object Object]'')"

text \<open>\<^verbatim>\<open>xs.findIndex(P)\<close>: the first position that satisfies \<open>P\<close>, or \<open>-1\<close>.\<close>

fun findIndex :: "('a \<Rightarrow> bool) \<Rightarrow> 'a list \<Rightarrow> int" where
  "findIndex P [] = - 1"
| "findIndex P (x # xs) =
     (if P x then 0 else (let i = findIndex P xs in if i = - 1 then - 1 else i + 1))"

section \<open>Errors and the product collection\<close>

text \<open>The three error classes of server.js with their message; anything else that is thrown
  (a \<^verbatim>\<open>TypeError\<close>, say) reaches the global error handler as an internal error.\<close>

datatype error =
    NotFoundError string
  | ValidationError string
  | AuthenticationError string
  | InternalServerError

fun statusCode :: "error \<Rightarrow> nat" where
  "statusCode (NotFoundError m) = 404"
| "statusCode (ValidationError m) = 400"
| "statusCode (AuthenticationError m) = 401"
| "statusCode InternalServerError = 500"

text \<open>The body \<^verbatim>\<open>{error, message}\<close> that the global error handler sends.\<close>

fun errorBody :: "error \<Rightarrow> string \<times> string" where
  "errorBody (NotFoundError m) = (''NotFoundError'', m)"
| "errorBody (ValidationError m) = (''ValidationError'', m)"
| "errorBody (AuthenticationError m) = (''AuthenticationError'', m)"
| "errorBody InternalServerError = (''InternalServerError'', ''Something went wrong on the server'')"

record product =
  id_p :: string
  name :: string
  description :: string
  price :: real
  category :: string
  inStock :: bool

text \<open>
  \<^verbatim>\<open>uuidv4()\<close> is a library call. The model takes the sequence of its results as a parameter
  \<open>uuidv4 :: nat \<Rightarrow> string\<close> (the value of the \<open>n\<close>-th call) and counts the calls made so far in
  the state. The five seed products take the first five values.
\<close>

definition seed :: "(nat \<Rightarrow> string) \<Rightarrow> product list" where
  "seed uuidv4 =
    [\<lparr>id_p = uuidv4 0, name = ''Gaming Laptop'',
      description = ''High-performance laptop for gaming and productivity'',
      price = 1299.99, category = ''Electronics'', inStock = True\<rparr>,
     \<lparr>id_p = uuidv4 1, name = ''Smartphone Pro'',
      description = ''Latest flagship smartphone with advanced camera'',
      price = 899.99, category = ''Electronics'', inStock = True\<rparr>,
     \<lparr>id_p = uuidv4 2, name = ''Coffee Maker'',
      description = ''Automatic drip coffee maker with programmable timer'',
      price = 79.99, category = ''Kitchen'', inStock = False\<rparr>,
     \<lparr>id_p = uuidv4 3, name = ''Ergonomic Office Chair'',
      description = ''Comfortable office chair with lumbar support'',
      price = 249.99, category = ''Furniture'', inStock = True\<rparr>,
     \<lparr>id_p = uuidv4 4, name = ''Wireless Mouse'',
      description = ''Precision wireless mouse with long battery life'',
      price = 39.99, category = ''Electronics'', inStock = True\<rparr>]"

text \<open>The state of the process: the array \<^verbatim>\<open>products\<close> and the number of \<^verbatim>\<open>uuidv4()\<close> calls.\<close>

type_synonym state = "product list \<times> nat"

definition initial :: "(nat \<Rightarrow> string) \<Rightarrow> state" where
  "initial uuidv4 = (seed uuidv4, 5)"

section \<open>Middleware\<close>

text \<open>
  \<^verbatim>\<open>app.use(express.json())\<close> stands before every route. For a request of any method it either
  leaves an object in \<^verbatim>\<open>req.body\<close> (the parsed JSON object or array, or \<^verbatim>\<open>{}\<close> for a request
  without a JSON body) and calls \<^verbatim>\<open>next()\<close>, or it rejects the body (malformed JSON, a body that
  is too large, an unsupported encoding) and calls \<^verbatim>\<open>next(err)\<close> with an error of its own. That
  error is none of the three classes of server.js, so the global error handler answers it
  with the status 500. \<^verbatim>\<open>req.body\<close> is modelled as the function from property names to values; a
  property that is not there reads as \<open>JUndefined\<close>.
\<close>

type_synonym body = "string \<Rightarrow> jsval"

datatype parsed = Rejected | Parsed body

text \<open>
  The id of a path \<^verbatim>\<open>/api/products/:id\<close> is the path segment with its percent-escapes decoded.
  When the segment cannot be decoded (\<^verbatim>\<open>/api/products/%\<close>), the router raises an error of its
  own instead of entering the route, and the global error handler answers it with the
  status 500.
\<close>

datatype segment = Malformed | Decoded string

text \<open>\<^verbatim>\<open>process.env.API_KEY || 'your-secret-api-key'\<close>: an unset or empty variable gives the
  default.\<close>

definition validApiKey :: "string option \<Rightarrow> string" where
  "validApiKey env = (case env of
       None \<Rightarrow> ''your-secret-api-key''
     | Some k \<Rightarrow> if k = [] then ''your-secret-api-key'' else k)"

text \<open>\<open>apiKey\<close> is \<^verbatim>\<open>req.headers['x-api-key']\<close>: \<open>None\<close> when the request has no such header.
  \<open>Inr ()\<close> is the call \<^verbatim>\<open>next()\<close>, \<open>Inl e\<close> the call \<^verbatim>\<open>next(e)\<close>.\<close>

definition authenticateApiKey :: "string option \<Rightarrow> string option \<Rightarrow> error + unit" where
  "authenticateApiKey env apiKey =
     (if apiKey = None \<or> apiKey = Some [] then Inl (AuthenticationError ''API key is required'')
      else if apiKey \<noteq> Some (validApiKey env) then Inl (AuthenticationError ''Invalid API key'')
      else Inr ())"

text \<open>The body \<^verbatim>\<open>{}\<close>.\<close>

definition emptyBody :: body where
  "emptyBody = (\<lambda>k. JUndefined)"

text \<open>\<^verbatim>\<open>v.trim().length < n\<close>, reached only when \<open>v\<close> is a string (the tests before it in the
  same \<^verbatim>\<open>||\<close> chain have failed).\<close>

fun trimmedShorter :: "jsval \<Rightarrow> nat \<Rightarrow> bool" where
  "trimmedShorter (JStr s) n = (length (trim s) < n)"
| "trimmedShorter v n = False"

fun notPositive :: "jsval \<Rightarrow> bool" where
  "notPositive (JNum x) = (x \<le> 0)"
| "notPositive v = False"

definition validationErrors :: "body \<Rightarrow> string list" where
  "validationErrors b =
    (let name = b ''name''; description = b ''description''; price = b ''price'';
         category = b ''category''; inStock = b ''inStock''
     in
       (if \<not> Boolean name \<or> typeof name \<noteq> ''string'' \<or> trimmedShorter name 2
        then [''Name is required and must be at least 2 characters''] else [])
     @ (if \<not> Boolean description \<or> typeof description \<noteq> ''string''
           \<or> trimmedShorter description 5
        then [''Description is required and must be at least 5 characters''] else [])
     @ (if \<not> Boolean price \<or> typeof price \<noteq> ''number'' \<or> notPositive price
        then [''Price is required and must be a positive number''] else [])
     @ (if \<not> Boolean category \<or> typeof category \<noteq> ''string'' \<or> trimmedShorter category 2
        then [''Category is required and must be at least 2 characters''] else [])
     @ (if typeof inStock \<noteq> ''boolean''
        then [''inStock is required and must be a boolean value''] else []))"

definition validateProduct :: "body \<Rightarrow> error + unit" where
  "validateProduct b =
     (let errors = validationErrors b in
      if length errors > 0
      then Inl (ValidationError (''Validation failed: '' @ join '', '' errors))
      else Inr ())"

section \<open>Read-only routes\<close>

subsection \<open>GET /api/products\<close>

text \<open>
  Subtraction, multiplication and \<^verbatim>\<open><\<close> on these doubles. \<^verbatim>\<open>NaN\<close> makes every result \<^verbatim>\<open>NaN\<close>
  and every comparison false; the difference of equal infinities and the product of a zero
  and an infinity are \<^verbatim>\<open>NaN\<close>; an exact result that is not zero is rounded; a zero result of a
  subtraction is negative only for \<open>-0 - +0\<close>, and a zero product is negative when exactly
  one factor is.
\<close>

definition minus_num :: "jsnum \<Rightarrow> jsnum \<Rightarrow> jsnum" where
  "minus_num a b =
    (if a = NaN \<or> b = NaN then NaN
     else if isInfinite a then (if a = b then NaN else a)
     else if isInfinite b then negate b
     else if intValue a - intValue b = 0
       then (if a = NegZero \<and> b = Num 0 then NegZero else Num 0)
     else round_double (intValue a - intValue b))"

definition times_num :: "jsnum \<Rightarrow> jsnum \<Rightarrow> jsnum" where
  "times_num a b =
    (if a = NaN \<or> b = NaN then NaN
     else if (isInfinite a \<and> isZero b) \<or> (isZero a \<and> isInfinite b) then NaN
     else if isInfinite a \<or> isInfinite b
       then (if negative a = negative b then Infinity else NegInfinity)
     else if intValue a * intValue b = 0
       then (if negative a = negative b then Num 0 else NegZero)
     else round_double (intValue a * intValue b))"

definition less_num :: "jsnum \<Rightarrow> jsnum \<Rightarrow> bool" where
  "less_num a b =
    (a \<noteq> NaN \<and> b \<noteq> NaN \<and> a \<noteq> Infinity \<and> b \<noteq> NegInfinity
     \<and> (b = Infinity \<or> a = NegInfinity \<or> intValue a < intValue b))"

text \<open>
  \<^verbatim>\<open>Math.ceil(len / limitNum)\<close> for the length of an array. A division by a zero gives an
  infinity with the sign of the zero, or \<^verbatim>\<open>NaN\<close> for \<open>0 / 0\<close>; a division by an infinity
  gives a zero. For a finite limit the quotient is rounded to a double before
  \<^verbatim>\<open>Math.ceil\<close> sees it; an array has fewer than \<open>2^32\<close> elements, and for such a length the
  rounded quotient and the exact one have the same ceiling, which is what the model takes.
  The ceiling of a quotient in \<open>(-1, 0)\<close>, or of \<open>-0\<close>, is \<open>-0\<close>.
\<close>

fun ceil_div :: "nat \<Rightarrow> jsnum \<Rightarrow> jsnum" where
  "ceil_div len (Num l) =
     (if l = 0 then (if len = 0 then NaN else Infinity)
      else (let c = \<lceil>real len / real_of_int l\<rceil> in if c = 0 \<and> l < 0 then NegZero else Num c))"
| "ceil_div len NegZero = (if len = 0 then NaN else NegInfinity)"
| "ceil_div len Infinity = Num 0"
| "ceil_div len NegInfinity = NegZero"
| "ceil_div len NaN = NaN"

record pagination =
  currentPage :: jsnum
  totalPages :: jsnum
  totalProducts :: nat
  hasNext :: bool
  hasPrev :: bool

text \<open>
  The three filters of the handler. \<^verbatim>\<open>if (category)\<close> and \<^verbatim>\<open>if (search)\<close> test for a truthy
  value, \<^verbatim>\<open>if (inStock !== undefined)\<close> for a parameter that is there. \<^verbatim>\<open>toLowerCase\<close> is a
  method of strings only: on an array or an object the call throws a \<^verbatim>\<open>TypeError\<close>, which the
  global error handler answers with the status 500. For \<open>category\<close> the call stands inside
  the callback of \<^verbatim>\<open>filter\<close> and is made only when there is a product to test; for \<open>search\<close>
  it is made before the filter runs.
\<close>

definition filteredProducts ::
  "product list \<Rightarrow> qval option \<Rightarrow> qval option \<Rightarrow> qval option \<Rightarrow> error + product list" where
  "filteredProducts products categoryQ inStockQ searchQ =
    (let fp0 = products;
         fp1 = (if truthy categoryQ
                then (case categoryQ of
                        Some (QStr c) \<Rightarrow>
                          Inr (filter (\<lambda>p. toLowerCase (category p) = toLowerCase c) fp0)
                      | _ \<Rightarrow> if fp0 = [] then Inr [] else Inl InternalServerError)
                else Inr fp0)
     in case fp1 of
          Inl e \<Rightarrow> Inl e
        | Inr fp1' \<Rightarrow>
           (let fp2 = (case inStockQ of
                         None \<Rightarrow> fp1'
                       | Some v \<Rightarrow> (let stockFilter = (v = QStr ''true'')
                                    in filter (\<lambda>p. inStock p = stockFilter) fp1'))
            in if truthy searchQ
               then (case searchQ of
                       Some (QStr t) \<Rightarrow>
                         (let searchTerm = toLowerCase t
                          in Inr (filter (\<lambda>p. includes_str (toLowerCase (name p)) searchTerm
                                    \<or> includes_str (toLowerCase (description p)) searchTerm
                                    \<or> includes_str (toLowerCase (category p)) searchTerm) fp2))
                     | _ \<Rightarrow> Inl InternalServerError)
               else Inr fp2))"

definition paginate :: "product list \<Rightarrow> jsnum \<Rightarrow> jsnum \<Rightarrow> product list \<times> pagination" where
  "paginate fp pageNum limitNum =
    (let startIndex = times_num (minus_num pageNum (Num 1)) limitNum;
         endIndex = times_num pageNum limitNum;
         paginatedProducts = slice fp startIndex endIndex
     in (paginatedProducts,
         \<lparr>currentPage = pageNum,
          totalPages = ceil_div (length fp) limitNum,
          totalProducts = length fp,
          hasNext = less_num endIndex (Num (int (length fp))),
          hasPrev = less_num (Num 0) startIndex\<rparr>))"

text \<open>
  \<^verbatim>\<open>parseInt(page)\<close> and \<^verbatim>\<open>parseInt(limit)\<close>: the parameter defaults to a number (1 or 10) when
  the request does not have it; otherwise it is converted to a string, which can throw, and
  the string is parsed.
\<close>

definition numberParam :: "qval option \<Rightarrow> int \<Rightarrow> error + jsnum" where
  "numberParam v d =
    (case v of
       None \<Rightarrow> Inr (Num d)
     | Some w \<Rightarrow> (case toStringQ w of
                   None \<Rightarrow> Inl InternalServerError
                 | Some s \<Rightarrow> Inr (parseInt s)))"

text \<open>The route, behind \<^verbatim>\<open>express.json()\<close>; the parameters in the order of the handler's
  destructuring.\<close>

definition listProducts ::
  "parsed \<Rightarrow> product list \<Rightarrow> qval option \<Rightarrow> qval option \<Rightarrow> qval option \<Rightarrow> qval option
     \<Rightarrow> qval option \<Rightarrow> error + product list \<times> pagination" where
  "listProducts json products categoryQ searchQ pageQ limitQ inStockQ =
    (case json of
       Rejected \<Rightarrow> Inl InternalServerError
     | Parsed b \<Rightarrow>
        (case filteredProducts products categoryQ inStockQ searchQ of
           Inl e \<Rightarrow> Inl e
         | Inr fp \<Rightarrow>
            (case numberParam pageQ 1 of
               Inl e \<Rightarrow> Inl e
             | Inr pageNum \<Rightarrow>
                (case numberParam limitQ 10 of
                   Inl e \<Rightarrow> Inl e
                 | Inr limitNum \<Rightarrow> Inr (paginate fp pageNum limitNum)))))"

subsection \<open>GET /api/products/search\<close>

text \<open>The route, behind \<^verbatim>\<open>express.json()\<close>. The result is the \<^verbatim>\<open>{query, results, count}\<close> of the
  response. \<^verbatim>\<open>!q\<close> holds for a parameter that is not there and for the empty string; on an
  array or an object \<^verbatim>\<open>q.toLowerCase()\<close> throws a \<^verbatim>\<open>TypeError\<close>.\<close>

definition searchProducts ::
  "parsed \<Rightarrow> product list \<Rightarrow> qval option \<Rightarrow> error + (string \<times> product list \<times> nat)" where
  \<open>searchProducts json products q =
    (case json of
       Rejected \<Rightarrow> Inl InternalServerError
     | Parsed b \<Rightarrow>
        (if \<not> truthy q
         then Inl (ValidationError ''Search query parameter "q" is required'')
         else (case q of
                 Some (QStr t) \<Rightarrow>
                   (let searchTerm = toLowerCase t;
                        searchResults =
                          filter (\<lambda>p. includes_str (toLowerCase (name p)) searchTerm
                                    \<or> includes_str (toLowerCase (description p)) searchTerm)
                            products
                    in Inr (t, searchResults, length searchResults))
               | _ \<Rightarrow> Inl InternalServerError)))\<close>

subsection \<open>GET /api/products/:id\<close>

text \<open>The handler of the route, on the collection and the decoded id of the path.\<close>

definition getProduct :: "product list \<Rightarrow> string \<Rightarrow> error + product" where
  "getProduct products ident =
    (case find (\<lambda>p. id_p p = ident) products of
       None \<Rightarrow> Inl (NotFoundError ''Product not found'')
     | Some product \<Rightarrow> Inr product)"

subsection \<open>GET /api/products/stats\<close>

text \<open>
  The prices are doubles, and the handler adds them up, divides the sum by the number of
  products and formats both with \<^verbatim>\<open>toFixed(2)\<close>. This arithmetic of doubles is not defined
  here: the handler takes the four operations as parameters, with a type \<open>'d\<close> for the
  doubles, so that what is proved about the statistics holds whatever they compute.
\<close>

record 'd double_ops =
  zero_d :: 'd
  plus_d :: "'d \<Rightarrow> real \<Rightarrow> 'd"
  divide_d :: "'d \<Rightarrow> nat \<Rightarrow> 'd"
  toFixed_d :: "'d \<Rightarrow> string"

text \<open>
  \<^verbatim>\<open>stats.categoryCounts\<close> starts as the object literal \<^verbatim>\<open>{}\<close>, whose prototype is
  \<^verbatim>\<open>Object.prototype\<close>. The model keeps its own properties as a map; a key that is not an
  own property is looked up in the prototype, which has the properties listed here: eleven
  functions and the accessor \<^verbatim>\<open>__proto__\<close>.
\<close>

definition objectPrototype :: "string list" where
  "objectPrototype =
    [''constructor'', ''__defineGetter__'', ''__defineSetter__'', ''hasOwnProperty'',
     ''__lookupGetter__'', ''__lookupSetter__'', ''isPrototypeOf'', ''propertyIsEnumerable'',
     ''toString'', ''valueOf'', ''__proto__'', ''toLocaleString'']"

text \<open>
  One round of the \<^verbatim>\<open>forEach\<close> body on the counts:
  \<^verbatim>\<open>if (counts[c]) counts[c]++; else counts[c] = 1;\<close>
  An own count that is a non-zero number is truthy and goes up by one. An inherited function or
  the inherited \<^verbatim>\<open>__proto__\<close> object is truthy as well: \<^verbatim>\<open>++\<close> turns it into \<^verbatim>\<open>NaN\<close>, and the
  assignment of \<^verbatim>\<open>NaN\<close> makes an own property, except for \<^verbatim>\<open>__proto__\<close>, whose setter ignores a
  value that is not an object. Everything else (no property, \<^verbatim>\<open>NaN\<close>, 0) is falsy. A count
  stays below the length of the array, so that adding one is exact.
\<close>

definition countCategory :: "(string \<rightharpoonup> jsnum) \<Rightarrow> string \<Rightarrow> (string \<rightharpoonup> jsnum)" where
  "countCategory counts c =
    (case counts c of
       Some (Num k) \<Rightarrow> if k \<noteq> 0 then counts(c \<mapsto> Num (k + 1)) else counts(c \<mapsto> Num 1)
     | Some Infinity \<Rightarrow> counts(c \<mapsto> Infinity)
     | Some NegInfinity \<Rightarrow> counts(c \<mapsto> NegInfinity)
     | Some NegZero \<Rightarrow> counts(c \<mapsto> Num 1)
     | Some NaN \<Rightarrow> counts(c \<mapsto> Num 1)
     | None \<Rightarrow>
         if c \<in> set objectPrototype
         then (if c = ''__proto__'' then counts else counts(c \<mapsto> NaN))
         else counts(c \<mapsto> Num 1))"

record stats =
  totalProducts_stats :: nat
  inStockCount :: nat
  outOfStockCount :: nat
  categoryCounts :: "string \<rightharpoonup> jsnum"
  averagePrice :: jsval
  totalValue :: string

text \<open>The handler of the route, on the collection.\<close>

definition getStats :: "'d double_ops \<Rightarrow> product list \<Rightarrow> stats" where
  "getStats ops products =
    (let counts = foldl (\<lambda>counts product. countCategory counts (category product)) Map.empty products;
         totalPrice = foldl (\<lambda>totalPrice product. plus_d ops totalPrice (price product))
                        (zero_d ops) products
     in \<lparr>totalProducts_stats = length products,
         inStockCount = length (filter (\<lambda>p. inStock p) products),
         outOfStockCount = length (filter (\<lambda>p. \<not> inStock p) products),
         categoryCounts = counts,
         averagePrice = (if length products > 0
                         then JStr (toFixed_d ops (divide_d ops totalPrice (length products)))
                         else JNum 0),
         totalValue = toFixed_d ops totalPrice\<rparr>)"

section \<open>Routes that change the collection\<close>

text \<open>
  A handler returns what it sends (the status, the message and the product) or the error it
  throws, together with the new state. The handlers of POST and PUT read
  \<^verbatim>\<open>name.trim()\<close>, \<^verbatim>\<open>description.trim()\<close>, \<^verbatim>\<open>parseFloat(price)\<close> and \<^verbatim>\<open>category.trim()\<close>;
  \<open>validateProduct\<close> runs before them and lets only strings and a number through
  (lemma \<open>validateProduct_shape\<close>), so the other shapes are collected in one branch.
\<close>

type_synonym reply = "nat \<times> string \<times> product"

definition createProduct :: "(nat \<Rightarrow> string) \<Rightarrow> body \<Rightarrow> state \<Rightarrow> (error + reply) \<times> state" where
  "createProduct uuidv4 b st =
    (case st of (products, calls) \<Rightarrow>
      (case (b ''name'', b ''description'', b ''price'', b ''category'') of
         (JStr name', JStr description', JNum price', JStr category') \<Rightarrow>
           (let newProduct = \<lparr>id_p = uuidv4 calls, name = trim name',
                               description = trim description', price = price',
                               category = trim category', inStock = Boolean (b ''inStock'')\<rparr>
            in (Inr (201, ''Product created successfully'', newProduct),
                (products @ [newProduct], Suc calls)))
       | _ \<Rightarrow> (Inl InternalServerError, (products, Suc calls))))"

definition updateProduct :: "string \<Rightarrow> body \<Rightarrow> state \<Rightarrow> (error + reply) \<times> state" where
  "updateProduct ident b st =
    (case st of (products, calls) \<Rightarrow>
      (let productIndex = findIndex (\<lambda>p. id_p p = ident) products in
       if productIndex = - 1 then (Inl (NotFoundError ''Product not found''), st)
       else
         (case (b ''name'', b ''description'', b ''price'', b ''category'') of
            (JStr name', JStr description', JNum price', JStr category') \<Rightarrow>
              (let products' = products[nat productIndex :=
                      \<lparr>id_p = ident, name = trim name', description = trim description',
                       price = price', category = trim category',
                       inStock = Boolean (b ''inStock'')\<rparr>]
               in (Inr (200, ''Product updated successfully'', products' ! nat productIndex),
                   (products', calls)))
          | _ \<Rightarrow> (Inl InternalServerError, st))))"

definition deleteProduct :: "string \<Rightarrow> state \<Rightarrow> (error + reply) \<times> state" where
  "deleteProduct ident st =
    (case st of (products, calls) \<Rightarrow>
      (let productIndex = findIndex (\<lambda>p. id_p p = ident) products in
       if productIndex = - 1 then (Inl (NotFoundError ''Product not found''), st)
       else
         (let deletedProduct = products ! nat productIndex;
              products' = take (nat productIndex) products @ drop (nat productIndex + 1) products
          in (Inr (200, ''Product deleted successfully'', deletedProduct), (products', calls)))))"

text \<open>The routes with their middleware, in the order of registration: \<^verbatim>\<open>express.json()\<close> first,
  then \<^verbatim>\<open>app.post('/api/products', authenticateApiKey, validateProduct, handler)\<close> and so on.
  A middleware that calls \<^verbatim>\<open>next(e)\<close> ends the chain.\<close>

definition postProducts ::
  "(nat \<Rightarrow> string) \<Rightarrow> string option \<Rightarrow> string option \<Rightarrow> parsed \<Rightarrow> state
     \<Rightarrow> (error + reply) \<times> state" where
  "postProducts uuidv4 env apiKey json st =
    (case json of
       Rejected \<Rightarrow> (Inl InternalServerError, st)
     | Parsed b \<Rightarrow>
        (case authenticateApiKey env apiKey of
           Inl e \<Rightarrow> (Inl e, st)
         | Inr u \<Rightarrow> (case validateProduct b of
                      Inl e \<Rightarrow> (Inl e, st)
                    | Inr u' \<Rightarrow> createProduct uuidv4 b st)))"

definition putProducts ::
  "string option \<Rightarrow> string option \<Rightarrow> segment \<Rightarrow> parsed \<Rightarrow> state \<Rightarrow> (error + reply) \<times> state" where
  "putProducts env apiKey seg json st =
    (case json of
       Rejected \<Rightarrow> (Inl InternalServerError, st)
     | Parsed b \<Rightarrow>
        (case seg of
           Malformed \<Rightarrow> (Inl InternalServerError, st)
         | Decoded ident \<Rightarrow>
            (case authenticateApiKey env apiKey of
               Inl e \<Rightarrow> (Inl e, st)
             | Inr u \<Rightarrow> (case validateProduct b of
                          Inl e \<Rightarrow> (Inl e, st)
                        | Inr u' \<Rightarrow> updateProduct ident b st))))"

definition deleteProducts ::
  "string option \<Rightarrow> string option \<Rightarrow> segment \<Rightarrow> parsed \<Rightarrow> state \<Rightarrow> (error + reply) \<times> state" where
  "deleteProducts env apiKey seg json st =
    (case json of
       Rejected \<Rightarrow> (Inl InternalServerError, st)
     | Parsed b \<Rightarrow>
        (case seg of
           Malformed \<Rightarrow> (Inl InternalServerError, st)
         | Decoded ident \<Rightarrow>
            (case authenticateApiKey env apiKey of
               Inl e \<Rightarrow> (Inl e, st)
             | Inr u \<Rightarrow> deleteProduct ident st)))"

text \<open>A request to one of the three routes: the \<^verbatim>\<open>x-api-key\<close> header, the id segment of the
  path where the route has one, and what \<^verbatim>\<open>express.json()\<close> makes of the body.\<close>

datatype request =
    POST "string option" parsed
  | PUT "string option" segment parsed
  | DELETE "string option" segment parsed

fun handle ::
  "(nat \<Rightarrow> string) \<Rightarrow> string option \<Rightarrow> request \<Rightarrow> state \<Rightarrow> (error + reply) \<times> state" where
  "handle uuidv4 env (POST apiKey json) st = postProducts uuidv4 env apiKey json st"
| "handle uuidv4 env (PUT apiKey seg json) st = putProducts env apiKey seg json st"
| "handle uuidv4 env (DELETE apiKey seg json) st = deleteProducts env apiKey seg json st"

text \<open>The state after a sequence of requests, served one after the other.\<close>

fun serve :: "(nat \<Rightarrow> string) \<Rightarrow> string option \<Rightarrow> request list \<Rightarrow> state \<Rightarrow> state" where
  "serve uuidv4 env [] st = st"
| "serve uuidv4 env (r # rs) st = serve uuidv4 env rs (snd (handle uuidv4 env r st))"

section \<open>The specification's notions\<close>

text \<open>The five validation rules as the specification words them: the value is there, has
  the right type, and a text has the minimum length after trimming, a price is positive.\<close>

fun textOk :: "nat \<Rightarrow> jsval \<Rightarrow> bool" where
  "textOk n (JStr s) = (n \<le> length (trim s))"
| "textOk n v = False"

fun priceOk :: "jsval \<Rightarrow> bool" where
  "priceOk (JNum x) = (0 < x)"
| "priceOk v = False"

fun booleanOk :: "jsval \<Rightarrow> bool" where
  "booleanOk (JBool b) = True"
| "booleanOk v = False"

text \<open>The field constraints of the data model on a stored product (\<open>inStock\<close> is a boolean
  by its type).\<close>

definition productOk :: "product \<Rightarrow> bool" where
  "productOk p =
    (2 \<le> length (trim (name p)) \<and> 5 \<le> length (trim (description p))
     \<and> 0 < price p \<and> 2 \<le> length (trim (category p)))"

text \<open>The normalized candidate of a body, with a given id: texts trimmed, the price as a
  number, the stock flag as a boolean.\<close>

fun text_of :: "jsval \<Rightarrow> string" where
  "text_of (JStr s) = s"
| "text_of v = []"

fun number_of :: "jsval \<Rightarrow> real" where
  "number_of (JNum x) = x"
| "number_of v = 0"

definition normalized :: "string \<Rightarrow> body \<Rightarrow> product" where
  "normalized ident b =
    \<lparr>id_p = ident, name = trim (text_of (b ''name'')),
     description = trim (text_of (b ''description'')), price = number_of (b ''price''),
     category = trim (text_of (b ''category'')), inStock = (b ''inStock'' = JBool True)\<rparr>"

text \<open>The slice \<open>[s, e)\<close> of a sequence: its elements at the positions \<open>i\<close> with
  \<open>s \<le> i < e\<close>, in order; a position outside the sequence contributes nothing.\<close>

definition spec_slice :: "'a list \<Rightarrow> int \<Rightarrow> int \<Rightarrow> 'a list" where
  "spec_slice xs s e = map (\<lambda>i. xs ! i) (filter (\<lambda>i. s \<le> int i \<and> int i < e) [0..<length xs])"

text \<open>The three filters of the query pipeline, each applied when its parameter is present
  (\<open>present_category\<close>: the category filter as the specification words it, for every
  parameter that is there; \<open>given_category\<close>: for a parameter that is there and not empty).
  The category and the search term are strings; the stock parameter is any value of the
  query, and stands for true exactly when it is the string \<^verbatim>\<open>true\<close>.\<close>

definition present_category :: "string option \<Rightarrow> product \<Rightarrow> bool" where
  "present_category categoryS p =
    (case categoryS of None \<Rightarrow> True | Some c \<Rightarrow> toLowerCase (category p) = toLowerCase c)"

definition given_category :: "string option \<Rightarrow> product \<Rightarrow> bool" where
  "given_category categoryS p =
    (case categoryS of None \<Rightarrow> True
     | Some c \<Rightarrow> c = [] \<or> toLowerCase (category p) = toLowerCase c)"

definition present_inStock :: "qval option \<Rightarrow> product \<Rightarrow> bool" where
  "present_inStock inStockQ p =
    (case inStockQ of None \<Rightarrow> True | Some v \<Rightarrow> inStock p = (v = QStr ''true''))"

definition present_search :: "string option \<Rightarrow> product \<Rightarrow> bool" where
  "present_search searchS p =
    (case searchS of None \<Rightarrow> True
     | Some t \<Rightarrow> sublist (toLowerCase t) (toLowerCase (name p))
                \<or> sublist (toLowerCase t) (toLowerCase (description p))
                \<or> sublist (toLowerCase t) (toLowerCase (category p)))"

text \<open>The number that a \<open>page\<close> or \<open>limit\<close> parameter stands for when it is a string or not
  there.\<close>

definition number_of_param :: "string option \<Rightarrow> int \<Rightarrow> jsnum" where
  "number_of_param v d = (case v of None \<Rightarrow> Num d | Some s \<Rightarrow> parseInt s)"

text \<open>A sequence of \<^verbatim>\<open>uuidv4()\<close> results for the examples: \<open>u\<close>, \<open>uu\<close>, \<open>uuu\<close>, ...\<close>

definition sampleIds :: "nat \<Rightarrow> string" where
  "sampleIds n = replicate (Suc n) (CHR ''u'')"

text \<open>A valid body for the examples.\<close>

definition sampleBody :: body where
  "sampleBody = emptyBody(''name'' := JStr '' Desk '', ''description'' := JStr ''Oak desk'',
     ''price'' := JNum 120, ''category'' := JStr ''Furniture'', ''inStock'' := JBool False)"

section \<open>Facts about the built-ins\<close>

lemma startsWith_prefix: "startsWith s t = prefix t s"
  by (induction s t rule: startsWith.induct) auto

lemma includes_str_sublist: "includes_str s t = sublist t s"
  by (induction s) (auto simp: startsWith_prefix sublist_Cons_right)

lemma trim_Nil: "trim [] = []"
  by (simp add: trim_def)

lemma validApiKey_nonempty: "validApiKey env \<noteq> []"
  by (simp add: validApiKey_def split: option.splits)

section \<open>Validation\<close>

lemma name_rule:
  "(if \<not> Boolean v \<or> typeof v \<noteq> ''string'' \<or> trimmedShorter v 2 then [m] else []) =
   (if textOk 2 v then [] else [m])"
  by (cases v) (auto simp: trim_Nil)

lemma description_rule:
  "(if \<not> Boolean v \<or> typeof v \<noteq> ''string'' \<or> trimmedShorter v 5 then [m] else []) =
   (if textOk 5 v then [] else [m])"
  by (cases v) (auto simp: trim_Nil)

lemma price_rule:
  "(if \<not> Boolean v \<or> typeof v \<noteq> ''number'' \<or> notPositive v then [m] else []) =
   (if priceOk v then [] else [m])"
  by (cases v) auto

lemma inStock_rule:
  "(if typeof v \<noteq> ''boolean'' then [m] else []) = (if booleanOk v then [] else [m])"
  by (cases v) auto

lemma validationErrors_rules:
  "validationErrors b =
      (if textOk 2 (b ''name'') then []
       else [''Name is required and must be at least 2 characters''])
    @ (if textOk 5 (b ''description'') then []
       else [''Description is required and must be at least 5 characters''])
    @ (if priceOk (b ''price'') then []
       else [''Price is required and must be a positive number''])
    @ (if textOk 2 (b ''category'') then []
       else [''Category is required and must be at least 2 characters''])
    @ (if booleanOk (b ''inStock'') then []
       else [''inStock is required and must be a boolean value''])"
  unfolding validationErrors_def Let_def
  by (simp only: name_rule description_rule price_rule inStock_rule)

text \<open>
  Claim C4. Validation checks the five rules independently of one another: whether a rule's
  message is reported depends on that rule's field alone, and the messages of all violated
  rules appear in the order name, description, price, category, inStock. The request fails
  with a \<open>ValidationError\<close> (status 400) exactly when a rule is violated, and the message is
  \<^verbatim>\<open>Validation failed: \<close> followed by the reported messages joined by a comma and a space.
  The payload with name \<^verbatim>\<open>a\<close> and price \<open>-5\<close> and nothing else gets all five messages.
\<close>

theorem validateProduct_reports_every_violation:
  "validationErrors b =
      (if textOk 2 (b ''name'') then []
       else [''Name is required and must be at least 2 characters''])
    @ (if textOk 5 (b ''description'') then []
       else [''Description is required and must be at least 5 characters''])
    @ (if priceOk (b ''price'') then []
       else [''Price is required and must be a positive number''])
    @ (if textOk 2 (b ''category'') then []
       else [''Category is required and must be at least 2 characters''])
    @ (if booleanOk (b ''inStock'') then []
       else [''inStock is required and must be a boolean value''])
   \<and> validateProduct b =
      (if validationErrors b = [] then Inr ()
       else Inl (ValidationError (''Validation failed: '' @ join '', '' (validationErrors b))))
   \<and> statusCode (ValidationError m) = 400
   \<and> validateProduct (emptyBody(''name'' := JStr ''a'', ''price'' := JNum (- 5))) =
      Inl (ValidationError ''Validation failed: Name is required and must be at least 2 characters, Description is required and must be at least 5 characters, Price is required and must be a positive number, Category is required and must be at least 2 characters, inStock is required and must be a boolean value'')"
proof (intro conjI)
  show "validateProduct b =
      (if validationErrors b = [] then Inr ()
       else Inl (ValidationError (''Validation failed: '' @ join '', '' (validationErrors b))))"
    by (simp add: validateProduct_def Let_def)
  show "validateProduct (emptyBody(''name'' := JStr ''a'', ''price'' := JNum (- 5))) =
      Inl (ValidationError ''Validation failed: Name is required and must be at least 2 characters, Description is required and must be at least 5 characters, Price is required and must be a positive number, Category is required and must be at least 2 characters, inStock is required and must be a boolean value'')"
    by (simp add: validateProduct_def validationErrors_rules emptyBody_def trim_def
        isWhiteSpace_def)
qed (simp_all add: validationErrors_rules)

text \<open>The theorem at a body that violates the rules for description and price only.\<close>

theorem validateProduct_reports_every_violation_witness:
  "validateProduct (emptyBody(''name'' := JStr ''Desk'', ''description'' := JStr '' oak '',
       ''price'' := JNum 0, ''category'' := JStr ''Furniture'', ''inStock'' := JBool False)) =
     Inl (ValidationError ''Validation failed: Description is required and must be at least 5 characters, Price is required and must be a positive number'')"
  using validateProduct_reports_every_violation [of
      "emptyBody(''name'' := JStr ''Desk'', ''description'' := JStr '' oak '',
         ''price'' := JNum 0, ''category'' := JStr ''Furniture'', ''inStock'' := JBool False)" "''m''"]
  by (simp add: emptyBody_def trim_def isWhiteSpace_def)

section \<open>Search\<close>

lemma toLowerCase_examples:
  "toLowerCase ''LAPTOP'' = ''laptop''" "toLowerCase ''kitchen'' = ''kitchen''"
  "toLowerCase ''CHAIR'' = ''chair''"
  by (simp_all add: toLowerCase_def toLowerChar_def isUpperCase_def)

text \<open>
  Claim C7, as stated, fails for two kinds of requests to the search operation. One whose
  body \<^verbatim>\<open>express.json()\<close> rejects is answered with the status 500 before the handler runs,
  whatever its \<open>q\<close> is. One with a repeated parameter (\<^verbatim>\<open>?q=a&q=b\<close>) hands the handler an
  array, which is neither absent nor empty; \<^verbatim>\<open>q.toLowerCase()\<close> throws, and the answer is the
  status 500 and no result set.
\<close>

theorem searchProducts_counterexample:
  "searchProducts Rejected (seed sampleIds) (Some (QStr ''laptop'')) = Inl InternalServerError
   \<and> searchProducts (Parsed emptyBody) (seed sampleIds) (Some (QArr [QStr ''a'', QStr ''b''])) =
       Inl InternalServerError
   \<and> statusCode InternalServerError = 500"
  by (simp add: searchProducts_def)

text \<open>
  Claim C7, amended. For every request to the search operation whose body \<^verbatim>\<open>express.json()\<close>
  accepts and whose \<open>q\<close> is absent or a single string: if \<open>q\<close> is absent or empty the
  operation fails with a \<open>ValidationError\<close> (status 400); otherwise it returns the term, all
  products (unpaginated, in the order of the collection) whose lower-cased name or
  lower-cased description contains the lower-cased term as a substring, and their number.
  The category is not matched: on the seed collection \<^verbatim>\<open>kitchen\<close> finds nothing here, while
  the \<open>search\<close> parameter of the listing finds the coffee maker by its category; \<^verbatim>\<open>LAPTOP\<close>
  finds the gaming laptop. A request whose body the parser rejects is answered with the
  status 500.
\<close>

theorem searchProducts_spec:
  \<open>searchProducts (Parsed b) products (map_option QStr q) =
    (case q of
       None \<Rightarrow> Inl (ValidationError ''Search query parameter "q" is required'')
     | Some t \<Rightarrow>
         if t = [] then Inl (ValidationError ''Search query parameter "q" is required'')
         else Inr (t,
                   filter (\<lambda>p. sublist (toLowerCase t) (toLowerCase (name p))
                             \<or> sublist (toLowerCase t) (toLowerCase (description p))) products,
                   length (filter (\<lambda>p. sublist (toLowerCase t) (toLowerCase (name p))
                             \<or> sublist (toLowerCase t) (toLowerCase (description p))) products)))
   \<and> searchProducts Rejected products v = Inl InternalServerError
   \<and> statusCode (ValidationError ''Search query parameter "q" is required'') = 400
   \<and> statusCode InternalServerError = 500
   \<and> map name (fst (snd (projr (searchProducts (Parsed b) (seed uuidv4) (Some (QStr ''LAPTOP'')))))) =
       [''Gaming Laptop'']
   \<and> searchProducts (Parsed b) (seed uuidv4) (Some (QStr ''kitchen'')) = Inr (''kitchen'', [], 0)
   \<and> map name (fst (projr (listProducts (Parsed b) (seed uuidv4) None (Some (QStr ''kitchen''))
         None None None))) = [''Coffee Maker'']\<close>
proof (intro conjI)
  show \<open>searchProducts (Parsed b) products (map_option QStr q) =
    (case q of
       None \<Rightarrow> Inl (ValidationError ''Search query parameter "q" is required'')
     | Some t \<Rightarrow>
         if t = [] then Inl (ValidationError ''Search query parameter "q" is required'')
         else Inr (t,
                   filter (\<lambda>p. sublist (toLowerCase t) (toLowerCase (name p))
                             \<or> sublist (toLowerCase t) (toLowerCase (description p))) products,
                   length (filter (\<lambda>p. sublist (toLowerCase t) (toLowerCase (name p))
                             \<or> sublist (toLowerCase t) (toLowerCase (description p))) products)))\<close>
    by (cases q) (simp_all add: searchProducts_def includes_str_sublist Let_def)
  show "searchProducts Rejected products v = Inl InternalServerError"
    by (simp add: searchProducts_def)
  show \<open>statusCode (ValidationError ''Search query parameter "q" is required'') = 400\<close>
    by simp
  show "statusCode InternalServerError = 500"
    by simp
  show "map name (fst (snd (projr (searchProducts (Parsed b) (seed uuidv4) (Some (QStr ''LAPTOP'')))))) =
       [''Gaming Laptop'']"
    by (simp add: searchProducts_def seed_def Let_def toLowerCase_examples toLowerCase_def
        toLowerChar_def isUpperCase_def)
  show "searchProducts (Parsed b) (seed uuidv4) (Some (QStr ''kitchen'')) = Inr (''kitchen'', [], 0)"
    by (simp add: searchProducts_def seed_def Let_def toLowerCase_examples toLowerCase_def
        toLowerChar_def isUpperCase_def)
  show "map name (fst (projr (listProducts (Parsed b) (seed uuidv4) None (Some (QStr ''kitchen''))
         None None None))) = [''Coffee Maker'']"
    by (simp add: listProducts_def filteredProducts_def numberParam_def paginate_def slice_def
        times_num_def minus_num_def round_double_def
        seed_def Let_def toLowerCase_examples toLowerCase_def toLowerChar_def isUpperCase_def)
qed

text \<open>The theorem on the seed collection: no term, an empty term, \<^verbatim>\<open>CHAIR\<close>, and a body that
  the parser rejects.\<close>

theorem searchProducts_spec_witness:
  \<open>searchProducts (Parsed emptyBody) (seed sampleIds) None =
     Inl (ValidationError ''Search query parameter "q" is required'')
   \<and> searchProducts (Parsed emptyBody) (seed sampleIds) (Some (QStr [])) =
     Inl (ValidationError ''Search query parameter "q" is required'')
   \<and> map name (fst (snd (projr
       (searchProducts (Parsed emptyBody) (seed sampleIds) (Some (QStr ''CHAIR'')))))) =
       [''Ergonomic Office Chair'']
   \<and> snd (snd (projr (searchProducts (Parsed emptyBody) (seed sampleIds) (Some (QStr ''CHAIR''))))) = 1
   \<and> searchProducts Rejected (seed sampleIds) (Some (QStr ''CHAIR'')) = Inl InternalServerError\<close>
  using searchProducts_spec [of emptyBody "seed sampleIds" None "Some (QStr ''CHAIR'')" sampleIds]
    searchProducts_spec [of emptyBody "seed sampleIds" "Some []" "Some (QStr ''CHAIR'')" sampleIds]
    searchProducts_spec [of emptyBody "seed sampleIds" "Some ''CHAIR''" "Some (QStr ''CHAIR'')" sampleIds]
  by (simp add: seed_def toLowerCase_examples toLowerCase_def toLowerChar_def isUpperCase_def
      sublist_code(3))

section \<open>Authentication\<close>

text \<open>
  Claim C10, as stated, fails for a request whose body \<^verbatim>\<open>express.json()\<close> rejects: the parser
  stands before the key check, and a POST or PUT without a key or with a wrong key is then
  answered with the status 500, not with the \<open>AuthenticationError\<close>. The same holds of a
  PUT whose id segment cannot be decoded.
\<close>

theorem auth_precedes_validation_counterexample:
  "None \<noteq> Some (validApiKey None) \<and> Some ''guess'' \<noteq> Some (validApiKey None)
   \<and> postProducts sampleIds None None Rejected (initial sampleIds) =
       (Inl InternalServerError, initial sampleIds)
   \<and> putProducts None (Some ''guess'') (Decoded ''u'') Rejected (initial sampleIds) =
       (Inl InternalServerError, initial sampleIds)
   \<and> putProducts None (Some ''guess'') Malformed (Parsed emptyBody) (initial sampleIds) =
       (Inl InternalServerError, initial sampleIds)
   \<and> statusCode InternalServerError = 500"
  by (simp add: postProducts_def putProducts_def validApiKey_def)

text \<open>
  Claim C10, amended. A POST or PUT request whose body \<^verbatim>\<open>express.json()\<close> accepts (and, for
  PUT, whose id segment can be decoded) and whose API key is missing or wrong is answered
  with the \<open>AuthenticationError\<close> (status 401) whatever the body holds, and the state stays
  as it was: \<open>authenticateApiKey\<close> stands before \<open>validateProduct\<close> in both routes, so the
  validation rules play no part in the result. A request whose body the parser rejects, or
  whose id segment cannot be decoded, is answered with the status 500, state unchanged. In
  no case is the answer to a request with a missing or wrong key a \<open>ValidationError\<close>.
\<close>

theorem auth_precedes_validation:
  "apiKey \<noteq> Some (validApiKey env) \<Longrightarrow>
     postProducts uuidv4 env apiKey (Parsed b) st =
       (Inl (AuthenticationError (if apiKey = None \<or> apiKey = Some [] then ''API key is required''
                                  else ''Invalid API key'')), st)
   \<and> putProducts env apiKey (Decoded ident) (Parsed b) st =
       (Inl (AuthenticationError (if apiKey = None \<or> apiKey = Some [] then ''API key is required''
                                  else ''Invalid API key'')), st)
   \<and> statusCode (AuthenticationError m) = 401
   \<and> postProducts uuidv4 env apiKey Rejected st = (Inl InternalServerError, st)
   \<and> putProducts env apiKey seg Rejected st = (Inl InternalServerError, st)
   \<and> putProducts env apiKey Malformed json st = (Inl InternalServerError, st)
   \<and> statusCode InternalServerError = 500
   \<and> fst (postProducts uuidv4 env apiKey json st) \<noteq> Inl (ValidationError m)
   \<and> fst (putProducts env apiKey seg json st) \<noteq> Inl (ValidationError m)"
  by (cases json; cases seg)
    (simp_all add: postProducts_def putProducts_def authenticateApiKey_def)

text \<open>The theorem at a body that violates every rule, without a key and with a wrong key.\<close>

theorem auth_precedes_validation_witness:
  "validateProduct emptyBody \<noteq> Inr ()
   \<and> None \<noteq> Some (validApiKey None) \<and> Some ''guess'' \<noteq> Some (validApiKey None)
   \<and> postProducts sampleIds None None (Parsed emptyBody) (initial sampleIds) =
       (Inl (AuthenticationError ''API key is required''), initial sampleIds)
   \<and> putProducts None (Some ''guess'') (Decoded ''u'') (Parsed emptyBody) (initial sampleIds) =
       (Inl (AuthenticationError ''Invalid API key''), initial sampleIds)
   \<and> putProducts None (Some ''guess'') (Decoded ''u'') Rejected (initial sampleIds) =
       (Inl InternalServerError, initial sampleIds)"
proof -
  have k: "Some ''guess'' \<noteq> Some (validApiKey None)"
    by (simp add: validApiKey_def)
  have v: "validateProduct emptyBody \<noteq> Inr ()"
    by (simp add: validateProduct_def validationErrors_rules emptyBody_def)
  from auth_precedes_validation [of None None sampleIds emptyBody "initial sampleIds" "''u''"
         "''m''" "Decoded ''u''" Rejected]
       auth_precedes_validation [OF k, of sampleIds emptyBody "initial sampleIds" "''u''"
         "''m''" "Decoded ''u''" Rejected] k v
  show ?thesis by simp
qed

text \<open>
  Claim C9, as stated, fails for a header that is present with an empty value: it does not
  match the key, and the answer is \<^verbatim>\<open>API key is required\<close>, not \<^verbatim>\<open>Invalid API key\<close>. It also
  fails for a request without the header whose body \<^verbatim>\<open>express.json()\<close> rejects, which is
  answered with the status 500.
\<close>

theorem post_unauthenticated_counterexample:
  "Some [] \<noteq> Some (validApiKey None)
   \<and> fst (postProducts sampleIds None (Some []) (Parsed emptyBody) (initial sampleIds))
       \<noteq> Inl (AuthenticationError ''Invalid API key'')
   \<and> postProducts sampleIds None None Rejected (initial sampleIds) =
       (Inl InternalServerError, initial sampleIds)
   \<and> statusCode InternalServerError = 500"
  by (simp add: postProducts_def authenticateApiKey_def validApiKey_def)

text \<open>
  Claim C9, amended. A POST request whose body \<^verbatim>\<open>express.json()\<close> accepts and that has no
  \<^verbatim>\<open>x-api-key\<close> header, or an empty one, is answered with the \<open>AuthenticationError\<close>
  \<^verbatim>\<open>API key is required\<close>; one with a non-empty header that differs from the key with the
  \<open>AuthenticationError\<close> \<^verbatim>\<open>Invalid API key\<close>. Both have status 401. A POST request whose body
  the parser rejects is answered with the status 500. In all these cases the state (the
  collection) stays as it was.
\<close>

theorem post_unauthenticated:
  "postProducts uuidv4 env None (Parsed b) st =
       (Inl (AuthenticationError ''API key is required''), st)
   \<and> postProducts uuidv4 env (Some []) (Parsed b) st =
       (Inl (AuthenticationError ''API key is required''), st)
   \<and> (k \<noteq> [] \<and> k \<noteq> validApiKey env \<longrightarrow>
        postProducts uuidv4 env (Some k) (Parsed b) st =
          (Inl (AuthenticationError ''Invalid API key''), st))
   \<and> statusCode (AuthenticationError m) = 401
   \<and> postProducts uuidv4 env apiKey Rejected st = (Inl InternalServerError, st)
   \<and> statusCode InternalServerError = 500"
  by (simp add: postProducts_def authenticateApiKey_def)

theorem post_unauthenticated_witness:
  "''guess'' \<noteq> [] \<and> ''guess'' \<noteq> validApiKey None
   \<and> postProducts sampleIds None (Some ''guess'') (Parsed emptyBody) (initial sampleIds) =
        (Inl (AuthenticationError ''Invalid API key''), initial sampleIds)
   \<and> postProducts sampleIds None None (Parsed emptyBody) (initial sampleIds) =
        (Inl (AuthenticationError ''API key is required''), initial sampleIds)"
proof -
  have k: "''guess'' \<noteq> [] \<and> ''guess'' \<noteq> validApiKey None"
    by (simp add: validApiKey_def)
  with post_unauthenticated [of sampleIds None emptyBody "initial sampleIds" "''guess''" "''m''" None]
  show ?thesis by simp
qed

section \<open>Facts about arrays and strings\<close>

lemma findIndex_range: "- 1 \<le> findIndex P xs \<and> findIndex P xs < int (length xs)"
  by (induction xs) (auto simp: Let_def)

lemma findIndex_none: "(findIndex P xs = - 1) = (\<forall>x \<in> set xs. \<not> P x)"
proof (induction xs)
  case Nil
  show ?case by simp
next
  case (Cons x xs)
  have "findIndex P xs + 1 \<noteq> - 1"
    using findIndex_range [of P xs] by arith
  with Cons show ?case by (auto simp: Let_def)
qed

lemma findIndex_first:
  "findIndex P xs \<noteq> - 1 \<Longrightarrow>
     nat (findIndex P xs) < length xs \<and> P (xs ! nat (findIndex P xs))
     \<and> (\<forall>j < nat (findIndex P xs). \<not> P (xs ! j))"
proof (induction xs)
  case Nil
  then show ?case by simp
next
  case (Cons x xs)
  show ?case
  proof (cases "P x")
    case True
    then show ?thesis by simp
  next
    case False
    with Cons.prems have ne: "findIndex P xs \<noteq> - 1" by (auto simp: Let_def)
    then have ge: "0 \<le> findIndex P xs" using findIndex_range [of P xs] by arith
    from ne have fi: "findIndex P (x # xs) = findIndex P xs + 1"
      using False by (simp add: Let_def)
    have n: "nat (findIndex P xs + 1) = Suc (nat (findIndex P xs))" using ge by simp
    from Cons.IH [OF ne] False show ?thesis
      unfolding fi n by (auto simp: less_Suc_eq_0_disj)
  qed
qed

lemma find_first:
  "i < length xs \<Longrightarrow> P (xs ! i) \<Longrightarrow> (\<forall>j < i. \<not> P (xs ! j)) \<Longrightarrow> find P xs = Some (xs ! i)"
proof (induction xs arbitrary: i)
  case Nil
  then show ?case by simp
next
  case (Cons x xs)
  show ?case
  proof (cases i)
    case 0
    with Cons.prems show ?thesis by simp
  next
    case (Suc k)
    with Cons.prems have "\<not> P x" by auto
    moreover have "find P xs = Some (xs ! k)"
      using Cons.prems Suc by (intro Cons.IH) auto
    ultimately show ?thesis using Suc by simp
  qed
qed

lemma dropWhile_fix: "xs = [] \<or> \<not> P (hd xs) \<Longrightarrow> dropWhile P xs = xs"
  by (cases xs) auto

lemma trim_trim: "trim (trim s) = trim s"
proof -
  define a where "a = dropWhile isWhiteSpace s"
  define b where "b = dropWhile isWhiteSpace (rev a)"
  have t: "trim s = rev b" by (simp add: trim_def a_def b_def)
  have hb: "b = [] \<or> \<not> isWhiteSpace (hd b)"
    unfolding b_def using hd_dropWhile [of isWhiteSpace "rev a"] by blast
  have hr: "rev b = [] \<or> \<not> isWhiteSpace (hd (rev b))"
  proof (cases "b = []")
    case True
    then show ?thesis by simp
  next
    case False
    then have "a \<noteq> []" by (auto simp: b_def)
    then have ha: "\<not> isWhiteSpace (hd a)"
      unfolding a_def using hd_dropWhile [of isWhiteSpace s] by blast
    have "rev a = takeWhile isWhiteSpace (rev a) @ b" by (simp add: b_def)
    then have "last (rev a) = last b" using False by (metis last_appendR)
    then have "last b = hd a" using \<open>a \<noteq> []\<close> by (simp add: last_rev)
    then show ?thesis using ha False by (simp add: hd_rev)
  qed
  have "trim (rev b) = rev (dropWhile isWhiteSpace (rev (dropWhile isWhiteSpace (rev b))))"
    by (simp add: trim_def)
  also have "dropWhile isWhiteSpace (rev b) = rev b" using hr by (rule dropWhile_fix)
  also have "rev (rev b) = b" by simp
  also have "dropWhile isWhiteSpace b = b" using hb by (rule dropWhile_fix)
  finally show ?thesis by (simp add: t)
qed

lemma filter_interval:
  "filter (\<lambda>i. a \<le> i \<and> i < b) [0..<n] = [a..<min b n]"
proof (induction n)
  case 0
  show ?case by simp
next
  case (Suc n)
  show ?case
  proof (cases "n < b")
    case True
    then have m: "min b n = n" "min b (Suc n) = Suc n" by simp_all
    show ?thesis using Suc True by (cases "a \<le> n") (simp_all add: m)
  next
    case False
    then have m: "min b n = b" "min b (Suc n) = b" by simp_all
    show ?thesis using Suc False by (simp add: m)
  qed
qed

lemma map_nth_take_drop:
  "map (\<lambda>i. xs ! i) [a..<min b (length xs)] = take (b - a) (drop a xs)"
proof (rule nth_equalityI)
  show "length (map (\<lambda>i. xs ! i) [a..<min b (length xs)]) = length (take (b - a) (drop a xs))"
    by (auto simp: min_def)
next
  fix i
  assume "i < length (map (\<lambda>i. xs ! i) [a..<min b (length xs)])"
  then have i: "i < b - a" "a + i < length xs" by auto
  then show "map (\<lambda>i. xs ! i) [a..<min b (length xs)] ! i = take (b - a) (drop a xs) ! i"
    by simp
qed

lemma slice_nonneg:
  assumes "0 \<le> s" and "0 \<le> e"
  shows "slice xs (Num s) (Num e) = spec_slice xs s e"
proof -
  have "filter (\<lambda>i. s \<le> int i \<and> int i < e) [0..<length xs]
      = filter (\<lambda>i. nat s \<le> i \<and> i < nat e) [0..<length xs]"
    using assms by (intro filter_cong) auto
  then have spec: "spec_slice xs s e = take (nat e - nat s) (drop (nat s) xs)"
    by (simp add: spec_slice_def filter_interval map_nth_take_drop)
  have "slice xs (Num s) (Num e) = take (nat e - nat s) (drop (nat s) xs)"
    using assms by (auto simp: slice_def Let_def min_def nat_diff_distrib')
  with spec show ?thesis by simp
qed

lemma ceiling_quotient: "\<lceil>real n / real_of_int l\<rceil> = - ((- int n) div l)"
proof -
  have "- (real n / real_of_int l) = real_of_int (- int n) / real_of_int l" by simp
  then have "\<lfloor>- (real n / real_of_int l)\<rfloor> = (- int n) div l"
    by (simp only: floor_divide_of_int_eq)
  then show ?thesis by (simp add: ceiling_def)
qed

lemma ceil_div_Num:
  "ceil_div n (Num l) =
     (if l = 0 then (if n = 0 then NaN else Infinity)
      else if - ((- int n) div l) = 0 \<and> l < 0 then NegZero else Num (- ((- int n) div l)))"
  by (simp add: ceiling_quotient Let_def)

text \<open>Rounding at work: an integer below \<open>2^53\<close> is kept, \<open>2^53 + 1\<close> lies between two doubles
  and goes to the even one, and \<open>2^1024\<close> is infinite.\<close>

lemma round_double_small: "\<bar>n\<bar> < 2 ^ 53 \<Longrightarrow> round_double n = Num n"
  by (simp add: round_double_def)

lemma round_double_examples:
  "round_double 9007199254740993 = Num 9007199254740992"
  "round_double (2 ^ 1024) = Infinity"
  by (simp_all add: round_double_def bitlen_def compute_floorlog Let_def)

section \<open>Creating, replacing and deleting products\<close>

lemma validateProduct_shape:
  "validateProduct b = Inr () \<Longrightarrow>
     textOk 2 (b ''name'') \<and> textOk 5 (b ''description'') \<and> priceOk (b ''price'')
     \<and> textOk 2 (b ''category'') \<and> booleanOk (b ''inStock'')"
  by (simp add: validateProduct_def validationErrors_rules Let_def split: if_splits)

lemma textOk_JStr: "textOk n v \<Longrightarrow> v = JStr (text_of v) \<and> n \<le> length (trim (text_of v))"
  by (cases v) auto

lemma priceOk_JNum: "priceOk v \<Longrightarrow> v = JNum (number_of v) \<and> 0 < number_of v"
  by (cases v) auto

lemma booleanOk_Boolean: "booleanOk v \<Longrightarrow> Boolean v = (v = JBool True)"
  by (cases v) auto

lemma createProduct_valid:
  assumes "validateProduct b = Inr ()"
  shows "createProduct uuidv4 b (products, calls) =
     (Inr (201, ''Product created successfully'', normalized (uuidv4 calls) b),
      (products @ [normalized (uuidv4 calls) b], Suc calls))"
proof -
  from validateProduct_shape [OF assms] obtain n d p c where
    "b ''name'' = JStr n" "b ''description'' = JStr d" "b ''price'' = JNum p" "b ''category'' = JStr c"
    "booleanOk (b ''inStock'')"
    using textOk_JStr priceOk_JNum by metis
  then show ?thesis
    by (simp add: createProduct_def normalized_def Let_def booleanOk_Boolean)
qed

lemma normalized_ok:
  assumes "validateProduct b = Inr ()"
  shows "productOk (normalized ident b)"
  using validateProduct_shape [OF assms] textOk_JStr priceOk_JNum
  by (simp add: productOk_def normalized_def trim_trim)

lemma sampleIds_values:
  "sampleIds 0 = ''u''" "sampleIds 1 = ''uu''" "sampleIds 2 = ''uuu''" "sampleIds 3 = ''uuuu''"
  "sampleIds 4 = ''uuuuu''" "sampleIds 5 = ''uuuuuu''" "sampleIds (Suc 0) = ''uu''"
  by (simp_all add: sampleIds_def numeral_eq_Suc)

lemma inj_sampleIds: "inj sampleIds"
  by (rule injI) (simp add: sampleIds_def)

lemma sample_auth: "authenticateApiKey None (Some ''your-secret-api-key'') = Inr ()"
  by (simp add: authenticateApiKey_def validApiKey_def)

lemma sample_valid: "validateProduct sampleBody = Inr ()"
  by (simp add: validateProduct_def validationErrors_rules sampleBody_def emptyBody_def
      trim_def isWhiteSpace_def)

lemma sample_normalized:
  "normalized ident sampleBody = \<lparr>id_p = ident, name = ''Desk'', description = ''Oak desk'',
     price = 120, category = ''Furniture'', inStock = False\<rparr>"
  by (simp add: normalized_def sampleBody_def emptyBody_def trim_def isWhiteSpace_def)

lemma updateProduct_valid:
  assumes "validateProduct b = Inr ()"
  shows "updateProduct ident b (products, calls) =
     (let productIndex = findIndex (\<lambda>p. id_p p = ident) products in
      if productIndex = - 1 then (Inl (NotFoundError ''Product not found''), (products, calls))
      else (Inr (200, ''Product updated successfully'', normalized ident b),
            (products[nat productIndex := normalized ident b], calls)))"
proof -
  from validateProduct_shape [OF assms] obtain n d p c where
    "b ''name'' = JStr n" "b ''description'' = JStr d" "b ''price'' = JNum p" "b ''category'' = JStr c"
    "booleanOk (b ''inStock'')"
    using textOk_JStr priceOk_JNum by metis
  moreover have "findIndex (\<lambda>p. id_p p = ident) products \<noteq> - 1 \<Longrightarrow>
      nat (findIndex (\<lambda>p. id_p p = ident) products) < length products"
    using findIndex_first [of "\<lambda>p. id_p p = ident" products] by simp
  ultimately show ?thesis
    by (simp add: updateProduct_def normalized_def Let_def booleanOk_Boolean)
qed

text \<open>
  Claim C6. Take a request to PUT that passes the key check, with a valid body. When no
  product has the id of the path, the request fails with a \<open>NotFoundError\<close> (status 404) and
  the state stays as it was. Otherwise let \<open>i\<close> be the first position that holds the id: the
  product at position \<open>i\<close> is overwritten with the normalized candidate under the same id,
  every other position of the sequence keeps its product (the new collection is the old one
  updated at \<open>i\<close>), the reply carries the updated record, and \<open>getProduct\<close> of that id on
  the new collection returns it.
\<close>

theorem putProducts_replaces:
  assumes "authenticateApiKey env apiKey = Inr ()" and "validateProduct b = Inr ()"
  shows "(ident \<notin> id_p ` set products \<longrightarrow>
            putProducts env apiKey (Decoded ident) (Parsed b) (products, calls) =
              (Inl (NotFoundError ''Product not found''), (products, calls)))
       \<and> (ident \<in> id_p ` set products \<longrightarrow>
            (let i = nat (findIndex (\<lambda>p. id_p p = ident) products) in
               i < length products \<and> id_p (products ! i) = ident
             \<and> (\<forall>j < i. id_p (products ! j) \<noteq> ident)
             \<and> putProducts env apiKey (Decoded ident) (Parsed b) (products, calls) =
                 (Inr (200, ''Product updated successfully'', normalized ident b),
                  (products[i := normalized ident b], calls))
             \<and> id_p (normalized ident b) = ident
             \<and> getProduct (products[i := normalized ident b]) ident = Inr (normalized ident b)))
       \<and> statusCode (NotFoundError m) = 404"
proof (intro conjI impI)
  assume "ident \<notin> id_p ` set products"
  then have "findIndex (\<lambda>p. id_p p = ident) products = - 1"
    by (auto simp: findIndex_none)
  then show "putProducts env apiKey (Decoded ident) (Parsed b) (products, calls) =
      (Inl (NotFoundError ''Product not found''), (products, calls))"
    using assms by (simp add: putProducts_def updateProduct_valid)
next
  assume "ident \<in> id_p ` set products"
  then have ne: "findIndex (\<lambda>p. id_p p = ident) products \<noteq> - 1"
    by (auto simp: findIndex_none)
  define i where "i = nat (findIndex (\<lambda>p. id_p p = ident) products)"
  from findIndex_first [OF ne] have i: "i < length products" "id_p (products ! i) = ident"
    "\<forall>j < i. id_p (products ! j) \<noteq> ident"
    by (simp_all add: i_def)
  have put: "putProducts env apiKey (Decoded ident) (Parsed b) (products, calls) =
      (Inr (200, ''Product updated successfully'', normalized ident b),
       (products[i := normalized ident b], calls))"
    using assms ne by (simp add: putProducts_def updateProduct_valid i_def)
  have idn: "id_p (normalized ident b) = ident" by (simp add: normalized_def)
  have "find (\<lambda>p. id_p p = ident) (products[i := normalized ident b])
      = Some ((products[i := normalized ident b]) ! i)"
    using i idn by (intro find_first) auto
  then have get: "getProduct (products[i := normalized ident b]) ident = Inr (normalized ident b)"
    using i by (simp add: getProduct_def)
  show "let i = nat (findIndex (\<lambda>p. id_p p = ident) products) in
               i < length products \<and> id_p (products ! i) = ident
             \<and> (\<forall>j < i. id_p (products ! j) \<noteq> ident)
             \<and> putProducts env apiKey (Decoded ident) (Parsed b) (products, calls) =
                 (Inr (200, ''Product updated successfully'', normalized ident b),
                  (products[i := normalized ident b], calls))
             \<and> id_p (normalized ident b) = ident
             \<and> getProduct (products[i := normalized ident b]) ident = Inr (normalized ident b)"
    unfolding Let_def i_def [symmetric] using i put idn get by simp
qed simp

text \<open>The theorem on the seed collection: an id that is not there, and the id of the third
  product.\<close>

theorem putProducts_replaces_witness:
  "authenticateApiKey None (Some ''your-secret-api-key'') = Inr ()
   \<and> validateProduct sampleBody = Inr ()
   \<and> putProducts None (Some ''your-secret-api-key'') (Decoded ''nowhere'') (Parsed sampleBody) (initial sampleIds) =
       (Inl (NotFoundError ''Product not found''), initial sampleIds)
   \<and> fst (putProducts None (Some ''your-secret-api-key'') (Decoded ''uuu'') (Parsed sampleBody) (initial sampleIds)) =
       Inr (200, ''Product updated successfully'',
            \<lparr>id_p = ''uuu'', name = ''Desk'', description = ''Oak desk'', price = 120,
             category = ''Furniture'', inStock = False\<rparr>)
   \<and> map name (fst (snd (putProducts None (Some ''your-secret-api-key'') (Decoded ''uuu'') (Parsed sampleBody)
         (initial sampleIds)))) =
       [''Gaming Laptop'', ''Smartphone Pro'', ''Desk'', ''Ergonomic Office Chair'',
        ''Wireless Mouse'']
   \<and> map id_p (fst (snd (putProducts None (Some ''your-secret-api-key'') (Decoded ''uuu'') (Parsed sampleBody)
         (initial sampleIds)))) = [''u'', ''uu'', ''uuu'', ''uuuu'', ''uuuuu'']"
proof -
  have ix: "findIndex (\<lambda>p. id_p p = ''uuu'') (seed sampleIds) = 2"
    by (simp add: seed_def sampleIds_values)
  have mem: "''uuu'' \<in> id_p ` set (seed sampleIds)" "''nowhere'' \<notin> id_p ` set (seed sampleIds)"
    by (simp_all add: seed_def sampleIds_values)
  from putProducts_replaces [OF sample_auth sample_valid, of "''nowhere''" "seed sampleIds" 5 "''m''"]
    putProducts_replaces [OF sample_auth sample_valid, of "''uuu''" "seed sampleIds" 5 "''m''"]
    mem sample_auth sample_valid
  show ?thesis
    by (simp add: ix initial_def sample_normalized Let_def) (simp add: seed_def sampleIds_values)
qed

lemma subseq_remove: "subseq (take i xs @ drop (Suc i) xs) xs"
proof (cases "i < length xs")
  case True
  then have "xs = take i xs @ xs ! i # drop (Suc i) xs" by (rule id_take_nth_drop)
  moreover have "subseq (take i xs @ drop (Suc i) xs) (take i xs @ xs ! i # drop (Suc i) xs)"
    by (intro list_emb_append_mono) auto
  ultimately show ?thesis by simp
next
  case False
  then show ?thesis by simp
qed

lemma handle_invariant:
  assumes ok: "\<forall>p \<in> set ps. productOk p"
    and ord: "subseq (map id_p ps) (map uuidv4 [0..<n])"
    and h: "handle uuidv4 env r (ps, n) = (res, (ps', n'))"
  shows "(\<forall>p \<in> set ps'. productOk p) \<and> subseq (map id_p ps') (map uuidv4 [0..<n'])"
proof (cases r)
  case (POST apiKey json)
  show ?thesis
  proof (cases "\<exists>b. json = Parsed b \<and> authenticateApiKey env apiKey = Inr ()
        \<and> validateProduct b = Inr ()")
    case True
    then obtain b where b: "json = Parsed b" "authenticateApiKey env apiKey = Inr ()"
      "validateProduct b = Inr ()" by blast
    with h POST have "ps' = ps @ [normalized (uuidv4 n) b]" "n' = Suc n"
      by (simp_all add: postProducts_def createProduct_valid)
    moreover have "productOk (normalized (uuidv4 n) b)" using b by (simp add: normalized_ok)
    moreover have "subseq (map id_p ps @ [uuidv4 n]) (map uuidv4 [0..<n] @ [uuidv4 n])"
      using ord by (intro list_emb_append_mono) auto
    ultimately show ?thesis using ok by (simp add: normalized_def)
  next
    case False
    with h POST have "ps' = ps" "n' = n"
      by (auto simp: postProducts_def split: sum.splits parsed.splits)
    then show ?thesis using ok ord by simp
  qed
next
  case (PUT apiKey seg json)
  show ?thesis
  proof (cases "\<exists>b ident. json = Parsed b \<and> seg = Decoded ident
        \<and> authenticateApiKey env apiKey = Inr ()
        \<and> validateProduct b = Inr () \<and> findIndex (\<lambda>p. id_p p = ident) ps \<noteq> - 1")
    case True
    then obtain b ident where b: "json = Parsed b" "seg = Decoded ident"
      "authenticateApiKey env apiKey = Inr ()"
      "validateProduct b = Inr ()" "findIndex (\<lambda>p. id_p p = ident) ps \<noteq> - 1" by blast
    define i where "i = nat (findIndex (\<lambda>p. id_p p = ident) ps)"
    from b findIndex_first [of "\<lambda>p. id_p p = ident" ps]
    have i: "i < length ps" "id_p (ps ! i) = ident" by (simp_all add: i_def)
    from h PUT b have eq: "ps' = ps[i := normalized ident b]" "n' = n"
      by (simp_all add: putProducts_def updateProduct_valid i_def)
    have "map id_p ps' = (map id_p ps)[i := ident]"
      by (simp add: eq map_update normalized_def)
    also have "\<dots> = map id_p ps" using i by (simp add: list_update_same_conv)
    finally have ids: "map id_p ps' = map id_p ps" .
    have "set ps' \<subseteq> insert (normalized ident b) (set ps)"
      unfolding eq by (rule set_update_subset_insert)
    moreover have "productOk (normalized ident b)" using b by (simp add: normalized_ok)
    ultimately show ?thesis using ok ord ids eq by auto
  next
    case False
    with h PUT have "ps' = ps" "n' = n"
      by (auto simp: putProducts_def updateProduct_valid Let_def
          split: sum.splits parsed.splits segment.splits)
    then show ?thesis using ok ord by simp
  qed
next
  case (DELETE apiKey seg json)
  show ?thesis
  proof (cases "\<exists>ident. json \<noteq> Rejected \<and> seg = Decoded ident
        \<and> authenticateApiKey env apiKey = Inr ()
        \<and> findIndex (\<lambda>p. id_p p = ident) ps \<noteq> - 1")
    case True
    then obtain ident where d: "json \<noteq> Rejected" "seg = Decoded ident"
      "authenticateApiKey env apiKey = Inr ()" "findIndex (\<lambda>p. id_p p = ident) ps \<noteq> - 1"
      by blast
    define i where "i = nat (findIndex (\<lambda>p. id_p p = ident) ps)"
    from h DELETE d have eq: "ps' = take i ps @ drop (Suc i) ps" "n' = n"
      by (simp_all add: deleteProducts_def deleteProduct_def Let_def i_def split: parsed.splits)
    have sub: "subseq ps' ps" unfolding eq by (rule subseq_remove)
    then have "subseq (map id_p ps') (map id_p ps)" by (rule subseq_map)
    then have "subseq (map id_p ps') (map uuidv4 [0..<n])"
      using ord by (rule subseq_order.trans)
    moreover have "set ps' \<subseteq> set ps"
      unfolding eq using set_take_subset [of i ps] set_drop_subset [of "Suc i" ps] by auto
    ultimately show ?thesis using ok eq by auto
  next
    case False
    with h DELETE have "ps' = ps" "n' = n"
      by (auto simp: deleteProducts_def deleteProduct_def Let_def
          split: sum.splits parsed.splits segment.splits)
    then show ?thesis using ok ord by simp
  qed
qed

lemma serve_invariant:
  "\<forall>p \<in> set (fst st). productOk p \<Longrightarrow>
   subseq (map id_p (fst st)) (map uuidv4 [0..<snd st]) \<Longrightarrow>
   (\<forall>p \<in> set (fst (serve uuidv4 env rs st)). productOk p)
   \<and> subseq (map id_p (fst (serve uuidv4 env rs st))) (map uuidv4 [0..<snd (serve uuidv4 env rs st)])"
proof (induction rs arbitrary: st)
  case Nil
  then show ?case by simp
next
  case (Cons r rs)
  obtain ps n where st: "st = (ps, n)" by (cases st)
  obtain res ps' n' where h: "handle uuidv4 env r (ps, n) = (res, (ps', n'))"
    by (metis prod.collapse)
  from handle_invariant [OF _ _ h] Cons.prems st
  have "(\<forall>p \<in> set ps'. productOk p) \<and> subseq (map id_p ps') (map uuidv4 [0..<n'])" by simp
  then show ?case using Cons.IH [of "(ps', n')"] st h by simp
qed

lemma seed_ok: "\<forall>p \<in> set (seed uuidv4). productOk p"
  by (simp add: seed_def productOk_def trim_def isWhiteSpace_def)

lemma upt_5: "[0..<5] = [0, 1, 2, 3, 4]"
  by (simp add: upt_rec)

text \<open>
  Claim C5. \<^verbatim>\<open>uuidv4()\<close> is taken never to return the same value twice (\<open>inj uuidv4\<close>), which
  is what the library is for. After every sequence of POST, PUT and DELETE requests served
  from the initial state, accepted or rejected, every product of the collection satisfies
  the field constraints, the ids in the collection are distinct, and the products stand in
  the order of their insertion: their ids are a subsequence of the ids generated so far,
  taken in the order of generation.
\<close>

theorem collection_invariant:
  assumes "inj uuidv4" and "serve uuidv4 env rs (initial uuidv4) = (products, calls)"
  shows "(\<forall>p \<in> set products. productOk p) \<and> distinct (map id_p products)
       \<and> subseq (map id_p products) (map uuidv4 [0..<calls])"
proof -
  have "subseq (map id_p (fst (initial uuidv4))) (map uuidv4 [0..<snd (initial uuidv4)])"
    by (simp add: initial_def seed_def upt_5)
  moreover have "\<forall>p \<in> set (fst (initial uuidv4)). productOk p"
    by (simp add: initial_def seed_ok)
  ultimately have inv: "(\<forall>p \<in> set products. productOk p)
      \<and> subseq (map id_p products) (map uuidv4 [0..<calls])"
    using serve_invariant [of "initial uuidv4" uuidv4 env rs] assms(2) by simp
  have "distinct (map uuidv4 [0..<calls])"
    using assms(1) by (simp add: distinct_map inj_on_def inj_def)
  with inv have "distinct (map id_p products)"
    using subseqs_distinctD [of "map id_p products" "map uuidv4 [0..<calls]"] by simp
  with inv show ?thesis by simp
qed

text \<open>The theorem on a run of seven requests: a product is created; a request without key,
  one whose body the parser rejects, one whose id cannot be decoded and one with an invalid
  body are turned down; the second seed product is replaced, and the first one is deleted.\<close>

lemma sample_run:
  "serve sampleIds None
     [POST (Some ''your-secret-api-key'') (Parsed sampleBody),
      POST None (Parsed sampleBody),
      PUT (Some ''your-secret-api-key'') (Decoded ''uu'') (Parsed sampleBody),
      POST (Some ''your-secret-api-key'') Rejected,
      DELETE (Some ''your-secret-api-key'') Malformed (Parsed emptyBody),
      DELETE (Some ''your-secret-api-key'') (Decoded ''u'') (Parsed emptyBody),
      POST (Some ''your-secret-api-key'') (Parsed emptyBody)]
     (initial sampleIds) =
   ([\<lparr>id_p = ''uu'', name = ''Desk'', description = ''Oak desk'', price = 120,
      category = ''Furniture'', inStock = False\<rparr>,
     \<lparr>id_p = ''uuu'', name = ''Coffee Maker'',
      description = ''Automatic drip coffee maker with programmable timer'',
      price = 79.99, category = ''Kitchen'', inStock = False\<rparr>,
     \<lparr>id_p = ''uuuu'', name = ''Ergonomic Office Chair'',
      description = ''Comfortable office chair with lumbar support'',
      price = 249.99, category = ''Furniture'', inStock = True\<rparr>,
     \<lparr>id_p = ''uuuuu'', name = ''Wireless Mouse'',
      description = ''Precision wireless mouse with long battery life'',
      price = 39.99, category = ''Electronics'', inStock = True\<rparr>,
     \<lparr>id_p = ''uuuuuu'', name = ''Desk'', description = ''Oak desk'', price = 120,
      category = ''Furniture'', inStock = False\<rparr>], 6)"
proof -
  have bad: "validateProduct emptyBody \<noteq> Inr ()"
    by (simp add: validateProduct_def validationErrors_rules emptyBody_def)
  then obtain e where e: "validateProduct emptyBody = Inl e"
    by (cases "validateProduct emptyBody") auto
  show ?thesis
    by (simp add: initial_def postProducts_def putProducts_def deleteProducts_def
        deleteProduct_def sample_auth sample_valid createProduct_valid updateProduct_valid e
        authenticateApiKey_def validApiKey_def sample_normalized seed_def sampleIds_values Let_def)
qed

theorem collection_invariant_witness:
  "inj sampleIds
   \<and> map id_p (fst (serve sampleIds None
       [POST (Some ''your-secret-api-key'') (Parsed sampleBody),
        POST None (Parsed sampleBody),
        PUT (Some ''your-secret-api-key'') (Decoded ''uu'') (Parsed sampleBody),
        POST (Some ''your-secret-api-key'') Rejected,
        DELETE (Some ''your-secret-api-key'') Malformed (Parsed emptyBody),
        DELETE (Some ''your-secret-api-key'') (Decoded ''u'') (Parsed emptyBody),
        POST (Some ''your-secret-api-key'') (Parsed emptyBody)]
       (initial sampleIds))) = [''uu'', ''uuu'', ''uuuu'', ''uuuuu'', ''uuuuuu'']
   \<and> list_all productOk (fst (serve sampleIds None
       [POST (Some ''your-secret-api-key'') (Parsed sampleBody),
        POST None (Parsed sampleBody),
        PUT (Some ''your-secret-api-key'') (Decoded ''uu'') (Parsed sampleBody),
        POST (Some ''your-secret-api-key'') Rejected,
        DELETE (Some ''your-secret-api-key'') Malformed (Parsed emptyBody),
        DELETE (Some ''your-secret-api-key'') (Decoded ''u'') (Parsed emptyBody),
        POST (Some ''your-secret-api-key'') (Parsed emptyBody)]
       (initial sampleIds)))
   \<and> distinct (map id_p (fst (serve sampleIds None
       [POST (Some ''your-secret-api-key'') (Parsed sampleBody),
        POST None (Parsed sampleBody),
        PUT (Some ''your-secret-api-key'') (Decoded ''uu'') (Parsed sampleBody),
        POST (Some ''your-secret-api-key'') Rejected,
        DELETE (Some ''your-secret-api-key'') Malformed (Parsed emptyBody),
        DELETE (Some ''your-secret-api-key'') (Decoded ''u'') (Parsed emptyBody),
        POST (Some ''your-secret-api-key'') (Parsed emptyBody)]
       (initial sampleIds))))
   \<and> subseq [''uu'', ''uuu'', ''uuuu'', ''uuuuu'', ''uuuuuu'']
        [''u'', ''uu'', ''uuu'', ''uuuu'', ''uuuuu'', ''uuuuuu'']"
proof -
  have six: "map sampleIds [0..<6] = [''u'', ''uu'', ''uuu'', ''uuuu'', ''uuuuu'', ''uuuuuu'']"
    by (simp add: upt_rec sampleIds_def)
  from collection_invariant [OF inj_sampleIds sample_run] inj_sampleIds
  show ?thesis
    unfolding sample_run six by (simp add: list_all_iff)
qed

section \<open>Listing\<close>

lemma parseInt_examples:
  "parseInt ''1'' = Num 1" "parseInt ''2'' = Num 2" "parseInt ''-1'' = Num (- 1)"
  "parseInt ''abc'' = NaN"
  by (simp_all add: parseInt_def parseDigits_def isDigit_def digitValue_def digitsValue_def
      isWhiteSpace_def round_double_def)

text \<open>The page for indices that are doubles with a non-negative integer value is the slice
  between them; with five products, two a page, the third page holds the fifth product.\<close>

lemma paginate_in_range:
  assumes "0 \<le> (page - 1) * limit" and "0 \<le> page * limit"
    and "\<bar>page - 1\<bar> < 2 ^ 53" and "\<bar>(page - 1) * limit\<bar> < 2 ^ 53" and "\<bar>page * limit\<bar> < 2 ^ 53"
  shows "fst (paginate fp (Num page) (Num limit)) =
           spec_slice fp ((page - 1) * limit) (page * limit)"
    and "snd (paginate fp (Num page) (Num limit)) =
           \<lparr>currentPage = Num page, totalPages = ceil_div (length fp) (Num limit),
            totalProducts = length fp,
            hasNext = (page * limit < int (length fp)),
            hasPrev = (0 < (page - 1) * limit)\<rparr>"
proof -
  have m: "minus_num (Num page) (Num 1) = Num (page - 1)"
    using assms(3) by (simp add: minus_num_def round_double_small)
  have s: "relativeIndex (int (length fp)) (times_num (Num (page - 1)) (Num limit)) =
      relativeIndex (int (length fp)) (Num ((page - 1) * limit))"
    "less_num (Num 0) (times_num (Num (page - 1)) (Num limit)) = (0 < (page - 1) * limit)"
    using assms(4) by (simp_all add: times_num_def less_num_def round_double_small)
  have e: "relativeIndex (int (length fp)) (times_num (Num page) (Num limit)) =
      relativeIndex (int (length fp)) (Num (page * limit))"
    "less_num (times_num (Num page) (Num limit)) (Num k) = (page * limit < k)" for k
    using assms(5) by (simp_all add: times_num_def less_num_def round_double_small)
  have "slice fp (times_num (Num (page - 1)) (Num limit)) (times_num (Num page) (Num limit)) =
      slice fp (Num ((page - 1) * limit)) (Num (page * limit))"
    by (simp add: slice_def s e)
  then show "fst (paginate fp (Num page) (Num limit)) =
           spec_slice fp ((page - 1) * limit) (page * limit)"
    using assms(1,2) by (simp add: paginate_def Let_def m slice_nonneg)
  show "snd (paginate fp (Num page) (Num limit)) =
           \<lparr>currentPage = Num page, totalPages = ceil_div (length fp) (Num limit),
            totalProducts = length fp,
            hasNext = (page * limit < int (length fp)),
            hasPrev = (0 < (page - 1) * limit)\<rparr>"
    by (simp add: paginate_def Let_def m s e del: ceil_div.simps)
qed

lemma paginate_five:
  assumes "length fp = 5"
  shows "paginate fp (Num 3) (Num 2) =
          ([fp ! 4], \<lparr>currentPage = Num 3, totalPages = Num 3, totalProducts = 5,
                      hasNext = False, hasPrev = True\<rparr>)"
proof -
  have "take (Suc 0) (drop 4 fp) = [fp ! 4]"
    using assms by (intro nth_equalityI) auto
  then show ?thesis
    using assms
    by (simp add: paginate_def Let_def slice_def times_num_def minus_num_def less_num_def
        round_double_def ceil_div_Num del: ceil_div.simps(1))
qed

text \<open>
  Claim C2 does not hold of the code. The handler passes the indices to \<^verbatim>\<open>slice\<close> unchecked,
  and \<^verbatim>\<open>slice\<close> counts a negative index from the end of the array.
  \<^verbatim>\<open>GET /api/products?page=-1&limit=2\<close> on the five seed products computes the indices \<open>-4\<close>
  and \<open>-2\<close>, which lie outside the sequence, and the page holds the second and the third
  product, where the slice \<open>[-4, -2)\<close> of the claim is empty. The metadata are the ones the
  claim gives.
\<close>

theorem listProducts_negative_page:
  "listProducts (Parsed emptyBody) (seed sampleIds) None None (Some (QStr ''-1''))
       (Some (QStr ''2'')) None =
     Inr ([seed sampleIds ! 1, seed sampleIds ! 2],
          \<lparr>currentPage = Num (- 1), totalPages = Num 3, totalProducts = 5,
           hasNext = True, hasPrev = False\<rparr>)
   \<and> map name [seed sampleIds ! 1, seed sampleIds ! 2] = [''Smartphone Pro'', ''Coffee Maker'']
   \<and> parseInt ''-1'' = Num (- 1) \<and> parseInt ''2'' = Num 2
   \<and> spec_slice (seed sampleIds) ((- 1 - 1) * 2) (- 1 * 2) = []"
  by (simp add: listProducts_def filteredProducts_def numberParam_def paginate_def slice_def
      times_num_def minus_num_def less_num_def round_double_def parseInt_examples
      seed_def spec_slice_def Let_def upt_rec ceil_div_Num del: ceil_div.simps(1))

text \<open>
  Claim C3 does not hold of the code. The defaults 1 and 10 stand in for a parameter that is
  absent only; a parameter that is present and not numeric makes \<^verbatim>\<open>parseInt\<close> return \<^verbatim>\<open>NaN\<close>,
  which is used as it is. On the seed collection \<^verbatim>\<open>page=abc\<close> gives an empty page with
  \<open>currentPage\<close> not a number, and \<^verbatim>\<open>limit=abc\<close> an empty page with \<open>totalPages\<close> not a
  number, where the defaults give all five products on page 1 of 1.
\<close>

theorem listProducts_non_numeric:
  "listProducts (Parsed emptyBody) (seed sampleIds) None None (Some (QStr ''abc'')) None None =
     Inr ([], \<lparr>currentPage = NaN, totalPages = Num 1, totalProducts = 5,
                hasNext = False, hasPrev = False\<rparr>)
   \<and> listProducts (Parsed emptyBody) (seed sampleIds) None None None (Some (QStr ''abc'')) None =
     Inr ([], \<lparr>currentPage = Num 1, totalPages = NaN, totalProducts = 5,
                hasNext = False, hasPrev = False\<rparr>)
   \<and> listProducts (Parsed emptyBody) (seed sampleIds) None None None None None =
     Inr (seed sampleIds, \<lparr>currentPage = Num 1, totalPages = Num 1, totalProducts = 5,
                hasNext = False, hasPrev = False\<rparr>)"
  by (simp add: listProducts_def filteredProducts_def numberParam_def paginate_def slice_def
      times_num_def minus_num_def less_num_def round_double_def parseInt_examples
      seed_def Let_def ceil_div_Num del: ceil_div.simps(1))

text \<open>In general: a page number that is \<^verbatim>\<open>NaN\<close> gives an empty page and no page number.\<close>

lemma paginate_NaN_page:
  "fst (paginate fp NaN limitNum) = []"
  "currentPage (snd (paginate fp NaN limitNum)) = NaN"
  by (simp_all add: paginate_def slice_def times_num_def minus_num_def Let_def)

text \<open>
  Claim C1, as stated, fails for three kinds of requests to the listing. With a \<open>category\<close>
  parameter that is present and empty (\<^verbatim>\<open>GET /api/products?category=\<close>) the handler skips the
  filter and lists all five seed products, while no product has a category that equals the
  empty string. A request whose body \<^verbatim>\<open>express.json()\<close> rejects is answered with the status
  500 before the handler runs. And a repeated parameter (\<^verbatim>\<open>?category=a&category=b\<close>) is an
  array, on which \<^verbatim>\<open>toLowerCase\<close> throws: the answer is the status 500.
\<close>

theorem listProducts_empty_category_counterexample:
  "listProducts (Parsed emptyBody) (seed sampleIds) (Some (QStr [])) None None None None =
     Inr (seed sampleIds, \<lparr>currentPage = Num 1, totalPages = Num 1, totalProducts = 5,
                hasNext = False, hasPrev = False\<rparr>)
   \<and> length (seed sampleIds) = 5
   \<and> filter (present_category (Some [])) (seed sampleIds) = []
   \<and> listProducts Rejected (seed sampleIds) None None None None None = Inl InternalServerError
   \<and> listProducts (Parsed emptyBody) (seed sampleIds) (Some (QArr [QStr ''a'', QStr ''b'']))
       None None None None = Inl InternalServerError
   \<and> statusCode InternalServerError = 500"
  by (simp add: listProducts_def filteredProducts_def numberParam_def paginate_def slice_def
      times_num_def minus_num_def less_num_def round_double_def
      present_category_def toLowerCase_def toLowerChar_def isUpperCase_def seed_def Let_def
      ceil_div_Num del: ceil_div.simps(1))

lemma toLowerCase_Nil: "toLowerCase [] = []"
  by (simp add: toLowerCase_def)

lemma filteredProducts_filters:
  "filteredProducts products (map_option QStr categoryS) inStockQ (map_option QStr searchS) =
     Inr (filter (present_search searchS)
       (filter (present_inStock inStockQ) (filter (given_category categoryS) products)))"
proof -
  have c: "(if truthy (map_option QStr categoryS)
            then (case map_option QStr categoryS of
                    Some (QStr c) \<Rightarrow>
                      Inr (filter (\<lambda>p. toLowerCase (category p) = toLowerCase c) products)
                  | _ \<Rightarrow> if products = [] then Inr [] else Inl InternalServerError)
            else Inr products)
        = Inr (filter (given_category categoryS) products)"
    by (cases categoryS) (simp_all add: given_category_def [abs_def])
  have s: "\<And>xs. (case inStockQ of None \<Rightarrow> xs
            | Some v \<Rightarrow> filter (\<lambda>p. inStock p = (v = QStr ''true'')) xs)
        = filter (present_inStock inStockQ) xs"
    by (cases inStockQ) (simp_all add: present_inStock_def [abs_def])
  have t: "\<And>xs. (if truthy (map_option QStr searchS)
            then (case map_option QStr searchS of
                    Some (QStr t) \<Rightarrow>
                      Inr (filter (\<lambda>p. includes_str (toLowerCase (name p)) (toLowerCase t)
                                \<or> includes_str (toLowerCase (description p)) (toLowerCase t)
                                \<or> includes_str (toLowerCase (category p)) (toLowerCase t)) xs)
                  | _ \<Rightarrow> Inl InternalServerError)
            else Inr xs)
        = Inr (filter (present_search searchS) xs)"
    by (cases searchS) (simp_all add: present_search_def [abs_def] includes_str_sublist toLowerCase_Nil)
  show ?thesis
    unfolding filteredProducts_def Let_def c s t by simp
qed

text \<open>
  Claim C1, amended. For every request to the listing whose body \<^verbatim>\<open>express.json()\<close> accepts and
  whose \<open>category\<close>, \<open>search\<close>, \<open>page\<close> and \<open>limit\<close> parameters are absent or single strings:
  the listing filters by category, then by stock, then by search term, and paginates the
  result. A \<open>category\<close> parameter that is present and not empty keeps exactly the products
  whose lower-cased category equals the lower-cased parameter (an empty one filters
  nothing); a present \<open>inStock\<close> parameter stands for true when it is the string \<^verbatim>\<open>true\<close> and
  for false otherwise, and keeps the products with that flag; a present \<open>search\<close> parameter
  keeps the products whose lower-cased name, description or category contains the
  lower-cased term. The page is cut from the fully filtered sequence, and \<open>totalProducts\<close>
  and \<open>totalPages\<close> are computed from its length. A request whose body the parser rejects is
  answered with the status 500.
\<close>

theorem listProducts_pipeline:
  "filteredProducts products (map_option QStr categoryS) inStockQ (map_option QStr searchS) =
     Inr (filter (present_search searchS)
       (filter (present_inStock inStockQ) (filter (given_category categoryS) products)))
   \<and> listProducts (Parsed b) products (map_option QStr categoryS) (map_option QStr searchS)
       (map_option QStr pageS) (map_option QStr limitS) inStockQ =
       Inr (paginate
         (filter (\<lambda>p. given_category categoryS p \<and> present_inStock inStockQ p
                     \<and> present_search searchS p) products)
         (number_of_param pageS 1) (number_of_param limitS 10))
   \<and> totalProducts (snd (projr (listProducts (Parsed b) products (map_option QStr categoryS)
       (map_option QStr searchS) (map_option QStr pageS) (map_option QStr limitS) inStockQ))) =
       length (filter (\<lambda>p. given_category categoryS p \<and> present_inStock inStockQ p
                           \<and> present_search searchS p) products)
   \<and> totalPages (snd (projr (listProducts (Parsed b) products (map_option QStr categoryS)
       (map_option QStr searchS) (map_option QStr pageS) (map_option QStr limitS) inStockQ))) =
       ceil_div (length (filter (\<lambda>p. given_category categoryS p \<and> present_inStock inStockQ p
                                     \<and> present_search searchS p) products))
         (number_of_param limitS 10)
   \<and> listProducts Rejected products categoryQ searchQ pageQ limitQ inStockQ = Inl InternalServerError
   \<and> statusCode InternalServerError = 500"
proof -
  have f: "filteredProducts products (map_option QStr categoryS) inStockQ (map_option QStr searchS) =
      Inr (filter (\<lambda>p. given_category categoryS p \<and> present_inStock inStockQ p
                  \<and> present_search searchS p) products)"
    unfolding filteredProducts_filters filter_filter by (simp only: conj_assoc)
  have n: "numberParam (map_option QStr v) d = Inr (number_of_param v d)" for v d
    by (cases v) (simp_all add: numberParam_def number_of_param_def)
  have l: "listProducts (Parsed b) products (map_option QStr categoryS) (map_option QStr searchS)
       (map_option QStr pageS) (map_option QStr limitS) inStockQ =
       Inr (paginate
         (filter (\<lambda>p. given_category categoryS p \<and> present_inStock inStockQ p
                     \<and> present_search searchS p) products)
         (number_of_param pageS 1) (number_of_param limitS 10))"
    unfolding listProducts_def f n by simp
  have r: "listProducts Rejected products categoryQ searchQ pageQ limitQ inStockQ =
      Inl InternalServerError"
    by (simp add: listProducts_def)
  show ?thesis
    unfolding l r
    by (intro conjI) (simp_all only: filteredProducts_filters paginate_def Let_def snd_conv
        pagination.simps sum.sel statusCode.simps)
qed

lemma toLowerCase_more:
  "toLowerCase ''Electronics'' = ''electronics''" "toLowerCase ''ELECTRONICS'' = ''electronics''"
  "toLowerCase ''Kitchen'' = ''kitchen''" "toLowerCase ''Furniture'' = ''furniture''"
  "toLowerCase ''Coffee'' = ''coffee''"
  by (simp_all add: toLowerCase_def toLowerChar_def isUpperCase_def)

text \<open>The theorem on the seed collection: \<^verbatim>\<open>category=ELECTRONICS&page=1&limit=2\<close>, a search for
  \<^verbatim>\<open>Coffee\<close> among the products that are out of stock, and a body that the parser rejects.\<close>

theorem listProducts_pipeline_witness:
  "listProducts (Parsed emptyBody) (seed sampleIds) (Some (QStr ''ELECTRONICS'')) None
       (Some (QStr ''1'')) (Some (QStr ''2'')) None =
     Inr ([seed sampleIds ! 0, seed sampleIds ! 1],
          \<lparr>currentPage = Num 1, totalPages = Num 2, totalProducts = 3, hasNext = True,
           hasPrev = False\<rparr>)
   \<and> map name [seed sampleIds ! 0, seed sampleIds ! 1] = [''Gaming Laptop'', ''Smartphone Pro'']
   \<and> map name (fst (projr (listProducts (Parsed emptyBody) (seed sampleIds) None
       (Some (QStr ''Coffee'')) None None (Some (QStr ''false''))))) = [''Coffee Maker'']
   \<and> totalProducts (snd (projr (listProducts (Parsed emptyBody) (seed sampleIds) None
       (Some (QStr ''Coffee'')) None None (Some (QArr [QStr ''true'', QStr ''true'']))))) = 1
   \<and> listProducts Rejected (seed sampleIds) (Some (QStr ''ELECTRONICS'')) None None None None =
       Inl InternalServerError"
proof -
  have e: "filter (\<lambda>p. given_category (Some ''ELECTRONICS'') p \<and> present_inStock None p
                     \<and> present_search None p) (seed sampleIds) =
           [seed sampleIds ! 0, seed sampleIds ! 1, seed sampleIds ! 4]"
    by (simp add: given_category_def present_inStock_def present_search_def seed_def
        toLowerCase_more)
  have c: "filter (\<lambda>p. given_category None p \<and> present_inStock (Some (QStr ''false'')) p
                     \<and> present_search (Some ''Coffee'') p) (seed sampleIds) = [seed sampleIds ! 2]"
       "filter (\<lambda>p. given_category None p
                     \<and> present_inStock (Some (QArr [QStr ''true'', QStr ''true''])) p
                     \<and> present_search (Some ''Coffee'') p) (seed sampleIds) = [seed sampleIds ! 2]"
    by (simp_all add: given_category_def present_inStock_def present_search_def seed_def
        toLowerCase_more toLowerCase_def toLowerChar_def isUpperCase_def sublist_code(3))
  note p1 = listProducts_pipeline [of "seed sampleIds" "Some ''ELECTRONICS''" None None
      emptyBody "Some ''1''" "Some ''2''", THEN conjunct2, THEN conjunct1]
  note p2 = listProducts_pipeline [of "seed sampleIds" None "Some (QStr ''false'')"
      "Some ''Coffee''" emptyBody None None, THEN conjunct2, THEN conjunct1]
  note p3 = listProducts_pipeline [of "seed sampleIds" None
      "Some (QArr [QStr ''true'', QStr ''true''])" "Some ''Coffee''" emptyBody None None,
      THEN conjunct2, THEN conjunct1]
  note p4 = listProducts_pipeline [of "seed sampleIds" None None None emptyBody None None
      "Some (QStr ''ELECTRONICS'')" None None None,
      THEN conjunct2, THEN conjunct2, THEN conjunct2, THEN conjunct2, THEN conjunct1]
  have s: "name (seed sampleIds ! 0) = ''Gaming Laptop''"
    "name (seed sampleIds ! Suc 0) = ''Smartphone Pro''" "name (seed sampleIds ! 2) = ''Coffee Maker''"
    by (simp_all add: seed_def)
  have o: "map_option QStr (Some x) = Some (QStr x)" "map_option QStr None = None" for x
    by simp_all
  show ?thesis
    unfolding p1 [unfolded o] p2 [unfolded o] p3 [unfolded o] p4 e c
    by (simp add: number_of_param_def parseInt_examples paginate_def slice_def
        times_num_def minus_num_def less_num_def round_double_def Let_def s
        ceil_div_Num del: ceil_div.simps(1))
qed

section \<open>Statistics\<close>

text \<open>What holds of the statistics for every collection: the three counts, and the result for
  the empty collection.\<close>

lemma categoryCounts_getStats:
  "categoryCounts (getStats ops ps) = foldl (\<lambda>counts product. countCategory counts (category product)) Map.empty ps"
  by (simp add: getStats_def Let_def)

lemma getStats_empty:
  "getStats ops [] = \<lparr>totalProducts_stats = 0, inStockCount = 0, outOfStockCount = 0,
      categoryCounts = Map.empty, averagePrice = JNum 0,
      totalValue = toFixed_d ops (zero_d ops)\<rparr>"
  by (simp add: getStats_def Let_def)

lemma getStats_counts:
  "totalProducts_stats (getStats ops ps) = length ps
   \<and> inStockCount (getStats ops ps) = length (filter inStock ps)
   \<and> outOfStockCount (getStats ops ps) = length (filter (\<lambda>p. \<not> inStock p) ps)
   \<and> inStockCount (getStats ops ps) + outOfStockCount (getStats ops ps) = length ps"
  by (simp add: getStats_def Let_def sum_length_filter_compl)

text \<open>The category counts are right for a collection none of whose categories is the name
  of a property of \<^verbatim>\<open>Object.prototype\<close>.\<close>

lemma countCategory_plain:
  assumes "c \<notin> set objectPrototype"
    and "\<forall>k v. m k = Some v \<longrightarrow> (\<exists>n. 0 < n \<and> v = Num n)"
  shows "countCategory m c = m(c \<mapsto> Num (case m c of None \<Rightarrow> 1 | Some v \<Rightarrow> intValue v + 1))"
    and "\<forall>k v. countCategory m c k = Some v \<longrightarrow> (\<exists>n. 0 < n \<and> v = Num n)"
proof -
  show eq: "countCategory m c = m(c \<mapsto> Num (case m c of None \<Rightarrow> 1 | Some v \<Rightarrow> intValue v + 1))"
  proof (cases "m c")
    case None
    with assms(1) show ?thesis by (simp add: countCategory_def)
  next
    case (Some v)
    with assms(2) obtain n where "0 < n" "v = Num n" by blast
    with Some show ?thesis by (simp add: countCategory_def)
  qed
  show "\<forall>k v. countCategory m c k = Some v \<longrightarrow> (\<exists>n. 0 < n \<and> v = Num n)"
  proof (intro allI impI)
    fix k v
    assume a: "countCategory m c k = Some v"
    show "\<exists>n. 0 < n \<and> v = Num n"
    proof (cases "k = c")
      case False
      with a eq have "m k = Some v" by simp
      with assms(2) show ?thesis by blast
    next
      case True
      show ?thesis
      proof (cases "m c")
        case None
        with a eq True show ?thesis by auto
      next
        case (Some w)
        with assms(2) obtain n where "0 < n" "w = Num n" by blast
        with a eq True Some show ?thesis by auto
      qed
    qed
  qed
qed

lemma foldl_countCategory_plain:
  assumes "set cs \<inter> set objectPrototype = {}"
    and "\<forall>k v. m k = Some v \<longrightarrow> (\<exists>n. 0 < n \<and> v = Num n)"
  shows "foldl countCategory m cs c =
    (case m c of
       None \<Rightarrow> if c \<in> set cs then Some (Num (int (count_list cs c))) else None
     | Some v \<Rightarrow> Some (Num (intValue v + int (count_list cs c))))"
  using assms
proof (induction cs arbitrary: m)
  case Nil
  show ?case
  proof (cases "m c")
    case None
    then show ?thesis by simp
  next
    case (Some v)
    with Nil.prems(2) obtain n where "v = Num n" by blast
    with Some show ?thesis by simp
  qed
next
  case (Cons x cs)
  then have x: "x \<notin> set objectPrototype" and cs: "set cs \<inter> set objectPrototype = {}"
    by auto
  note step = countCategory_plain [OF x Cons.prems(2)]
  have "foldl countCategory m (x # cs) c = foldl countCategory (countCategory m x) cs c"
    by simp
  also have "\<dots> = (case countCategory m x c of
       None \<Rightarrow> if c \<in> set cs then Some (Num (int (count_list cs c))) else None
     | Some v \<Rightarrow> Some (Num (intValue v + int (count_list cs c))))"
    using cs step(2) by (rule Cons.IH)
  also have "\<dots> = (case m c of
       None \<Rightarrow> if c \<in> set (x # cs) then Some (Num (int (count_list (x # cs) c))) else None
     | Some v \<Rightarrow> Some (Num (intValue v + int (count_list (x # cs) c))))"
    unfolding step(1)
    by (cases "m c") (auto simp: count_list_0_iff)
  finally show ?case .
qed

lemma categoryCounts_plain:
  assumes "category ` set ps \<inter> set objectPrototype = {}"
  shows "categoryCounts (getStats ops ps) c =
     (if c \<in> category ` set ps
      then Some (Num (int (length (filter (\<lambda>p. category p = c) ps)))) else None)"
proof -
  have f: "foldl (\<lambda>counts product. countCategory counts (category product)) m ps
      = foldl countCategory m (map category ps)" for m
    by (simp add: foldl_map)
  have l: "count_list (map category ps) c = length (filter (\<lambda>p. category p = c) ps)"
    by (induction ps) auto
  from foldl_countCategory_plain [of "map category ps" Map.empty c] assms
  show ?thesis
    by (simp add: categoryCounts_getStats f l)
qed

text \<open>
  Claim C8 does not hold of the code. \<open>categoryCounts\<close> is a plain object, and the handler
  tests \<^verbatim>\<open>stats.categoryCounts[product.category]\<close> for truthiness, which also finds what the
  object inherits from \<^verbatim>\<open>Object.prototype\<close>. A product of the category \<^verbatim>\<open>constructor\<close>
  passes validation and is stored; the statistics then hold \<^verbatim>\<open>NaN\<close> for that category where
  one product has it, and 1 where two products have it; a product of the category
  \<^verbatim>\<open>__proto__\<close> is not counted at all. The other categories are counted as they should be.
\<close>

theorem getStats_inherited_category:
  "validateProduct (sampleBody(''category'' := JStr ''constructor'')) = Inr ()
   \<and> map category (fst (serve sampleIds None
        [POST (Some ''your-secret-api-key'') (Parsed (sampleBody(''category'' := JStr ''constructor'')))]
        (initial sampleIds))) =
      [''Electronics'', ''Electronics'', ''Kitchen'', ''Furniture'', ''Electronics'', ''constructor'']
   \<and> categoryCounts (getStats ops (fst (serve sampleIds None
        [POST (Some ''your-secret-api-key'') (Parsed (sampleBody(''category'' := JStr ''constructor'')))]
        (initial sampleIds)))) ''constructor'' = Some NaN
   \<and> categoryCounts (getStats ops (fst (serve sampleIds None
        [POST (Some ''your-secret-api-key'') (Parsed (sampleBody(''category'' := JStr ''constructor''))),
         POST (Some ''your-secret-api-key'') (Parsed (sampleBody(''category'' := JStr ''constructor'')))]
        (initial sampleIds)))) ''constructor'' = Some (Num 1)
   \<and> categoryCounts (getStats ops (fst (serve sampleIds None
        [POST (Some ''your-secret-api-key'') (Parsed (sampleBody(''category'' := JStr ''__proto__'')))]
        (initial sampleIds)))) ''__proto__'' = None
   \<and> categoryCounts (getStats ops (fst (serve sampleIds None
        [POST (Some ''your-secret-api-key'') (Parsed (sampleBody(''category'' := JStr ''constructor'')))]
        (initial sampleIds)))) ''Electronics'' = Some (Num 3)"
proof -
  have v: "validateProduct (sampleBody(''category'' := JStr c)) = Inr ()"
    if "2 \<le> length (trim c)" for c
    using that by (simp add: validateProduct_def validationErrors_rules sampleBody_def emptyBody_def
      trim_def isWhiteSpace_def)
  have t: "trim ''constructor'' = ''constructor''" "trim ''__proto__'' = ''__proto__''"
    by (simp_all add: trim_def isWhiteSpace_def)
  have n: "normalized i (sampleBody(''category'' := JStr c)) =
      \<lparr>id_p = i, name = ''Desk'', description = ''Oak desk'', price = 120,
       category = trim c, inStock = False\<rparr>" for i c
    by (simp add: normalized_def sampleBody_def emptyBody_def trim_def isWhiteSpace_def)
  show ?thesis
    by (simp add: v t n initial_def postProducts_def sample_auth createProduct_valid
        seed_def categoryCounts_getStats countCategory_def objectPrototype_def Let_def)
qed

end
